theory Spec2Isabelle
  imports Complex_Main "HOL-Library.Sublist"
begin

text \<open>
  A model of the Anki MCP server: the client of AnkiConnect (\<^verbatim>\<open>ankiconnect.go\<close>) and the
  tool handlers of the full tool surface (\<^verbatim>\<open>main.go\<close>), with \<^verbatim>\<open>handleAddMedia\<close> and
  \<^verbatim>\<open>handleCreateCardWithMedia\<close> in the revision that resolves media payloads through
  \<^verbatim>\<open>processMediaData\<close>. The reduced tool surface (a \<^verbatim>\<open>create_card\<close> taking file paths)
  is not modelled. Every function takes the environment it consults and the requests sent
  so far, and returns the requests sent when it ends, so that what reaches the endpoint
  is part of the result.
\<close>

section \<open>Values exchanged with AnkiConnect and with the tool framework\<close>

text \<open>
  A value decoded from JSON into Go's \<^verbatim>\<open>interface{}\<close>: nil, bool, float64, string,
  \<^verbatim>\<open>[]interface{}\<close> or \<^verbatim>\<open>map[string]interface{}\<close>. A decoded object is kept as an
  association list and read through \<open>map_of\<close>.
\<close>

datatype json =
    JNull
  | JBool bool
  | JNum real
  | JStr string
  | JArr "json list"
  | JObj "(string \<times> json) list"

text \<open>An \<^verbatim>\<open>error\<close> value is identified with the text of its \<^verbatim>\<open>Error()\<close> method.\<close>

type_synonym error = string

text \<open>Indexing a Go map: a missing key yields the zero value, here the nil interface.\<close>

definition index :: "(string \<rightharpoonup> json) \<Rightarrow> string \<Rightarrow> json" where
  "index m k = (case m k of None \<Rightarrow> JNull | Some v \<Rightarrow> v)"

text \<open>The comma-ok type assertions \<^verbatim>\<open>v.(string)\<close>, \<^verbatim>\<open>v.(float64)\<close>,
  \<^verbatim>\<open>v.([]interface{})\<close> and \<^verbatim>\<open>v.(map[string]interface{})\<close>.\<close>

fun as_string :: "json \<Rightarrow> string option" where
  "as_string (JStr s) = Some s"
| "as_string _ = None"

fun as_float64 :: "json \<Rightarrow> real option" where
  "as_float64 (JNum x) = Some x"
| "as_float64 _ = None"

fun as_array :: "json \<Rightarrow> json list option" where
  "as_array (JArr xs) = Some xs"
| "as_array _ = None"

fun as_object :: "json \<Rightarrow> (string \<times> json) list option" where
  "as_object (JObj kvs) = Some kvs"
| "as_object _ = None"

text \<open>The conversion \<^verbatim>\<open>int64(f)\<close> of a float64: the fraction is discarded (truncation
  towards zero). Values outside the int64 range are implementation-defined in Go and are
  not given a meaning of their own here.\<close>

definition int64 :: "real \<Rightarrow> int" where
  "int64 f = (if f < 0 then \<lceil>f\<rceil> else \<lfloor>f\<rfloor>)"

subsection \<open>Library functions on strings\<close>

text \<open>\<^verbatim>\<open>strings.HasPrefix\<close> and \<^verbatim>\<open>strings.Contains\<close>.\<close>

definition HasPrefix :: "string \<Rightarrow> string \<Rightarrow> bool" where
  "HasPrefix s p = prefix p s"

primrec Contains :: "string \<Rightarrow> string \<Rightarrow> bool" where
  "Contains [] substr = (substr = [])"
| "Contains (c # cs) substr = (if prefix substr (c # cs) then True else Contains cs substr)"

text \<open>\<^verbatim>\<open>strings.Split(s, sep)\<close> for a separator of one byte, which is what every call
  in the program passes: the pieces between the occurrences of the separator, so the
  result has one more element than the string has separators.\<close>

primrec Split :: "string \<Rightarrow> char \<Rightarrow> string list" where
  "Split [] sep = [[]]"
| "Split (c # cs) sep =
     (if c = sep then [] # Split cs sep
      else (case Split cs sep of [] \<Rightarrow> [[c]] | p # ps \<Rightarrow> (c # p) # ps))"

text \<open>\<^verbatim>\<open>strings.Join(elems, sep)\<close>.\<close>

fun Join :: "string list \<Rightarrow> string \<Rightarrow> string" where
  "Join [] sep = []"
| "Join [x] sep = x"
| "Join (x # y # ys) sep = x @ sep @ Join (y # ys) sep"

text \<open>The verb \<^verbatim>\<open>%d\<close> of \<^verbatim>\<open>fmt.Sprintf\<close>: decimal digits, with a minus sign for a
  negative number.\<close>

definition digit :: "nat \<Rightarrow> char" where
  "digit d = ''0123456789'' ! d"

function decimal :: "nat \<Rightarrow> string" where
  "decimal n = (if n < 10 then [digit n] else decimal (n div 10) @ [digit (n mod 10)])"
  by pat_completeness auto
termination
  by (relation "measure id") auto

declare decimal.simps [simp del]

definition fmt_d :: "int \<Rightarrow> string" where
  "fmt_d i = (if i < 0 then CHR ''-'' # decimal (nat (- i)) else decimal (nat i))"

text \<open>\<^verbatim>\<open>strconv.Atoi\<close> on a target whose \<^verbatim>\<open>int\<close> has 64 bits: an optional sign, then
  one or more decimal digits; anything else, or a value outside the range of \<^verbatim>\<open>int\<close>,
  is an error (\<open>None\<close>).\<close>

definition isDigit :: "char \<Rightarrow> bool" where
  "isDigit c = (48 \<le> (of_char c :: nat) \<and> (of_char c :: nat) \<le> 57)"

definition digitsValue :: "string \<Rightarrow> int" where
  "digitsValue ds = foldl (\<lambda>n c. 10 * n + (of_char c - 48)) 0 ds"

definition Atoi :: "string \<Rightarrow> int option" where
  "Atoi s =
     (let neg = (case s of [] \<Rightarrow> False | c # _ \<Rightarrow> c = CHR ''-'');
          ds = (case s of [] \<Rightarrow> [] | c # cs \<Rightarrow> if c = CHR ''-'' then cs else if c = CHR ''+'' then cs else s)
      in if ds = [] then None
         else if list_all isDigit ds then
           (let n = digitsValue ds in
            if neg then (if n \<le> 2 ^ 63 then Some (- n) else None)
            else (if n < 2 ^ 63 then Some n else None))
         else None)"


section \<open>The RPC client (ankiconnect.go)\<close>

text \<open>\<^verbatim>\<open>MediaFile\<close> and \<^verbatim>\<open>Note\<close>, the note in AnkiConnect's format. The field
  \<^verbatim>\<open>Fields\<close> of a media file is named \<open>Fields_media\<close> here, apart from the note's.\<close>

record MediaFile =
  Path :: string
  Filename :: string
  Fields_media :: "string list"
  Data :: string

record Note =
  DeckName :: string
  ModelName :: string
  Fields :: "(string \<times> string) list"
  Tags :: "string list"
  Audio :: "MediaFile list"
  Picture :: "MediaFile list"
  Video :: "MediaFile list"
  Options :: "(string \<times> json) list"

text \<open>The Go values the client passes as \<^verbatim>\<open>params\<close>; \<^verbatim>\<open>nil\<close> is \<open>None\<close>.\<close>

datatype gvalue =
    VBool bool
  | VInt64 int
  | VString string
  | VStrings "string list"
  | VInt64s "int list"
  | VStringMap "(string \<times> string) list"
  | VNote Note
  | VMap "(string \<times> gvalue) list"

text \<open>The client, without its \<^verbatim>\<open>http.Client\<close>: a timeout shows as a failed POST. The
  field \<^verbatim>\<open>Version\<close> of a request is named \<open>Version_req\<close>, apart from the client's.\<close>

record AnkiConnect =
  URL :: string
  Version :: int

record ankiRequest =
  Action :: string
  Version_req :: int
  Params :: "gvalue option"

record ankiResponse =
  Result :: json
  Error :: string

definition defaultAnkiConnectURL :: string where
  "defaultAnkiConnectURL = ''http://localhost:8765''"

definition ankiConnectVersion :: int where
  "ankiConnectVersion = 6"

definition NewAnkiConnect :: AnkiConnect where
  "NewAnkiConnect = \<lparr>URL = defaultAnkiConnectURL, Version = ankiConnectVersion\<rparr>"

definition NewAnkiConnectWithURL :: "string \<Rightarrow> AnkiConnect" where
  "NewAnkiConnectWithURL url = NewAnkiConnect\<lparr>URL := url\<rparr>"

text \<open>
  What one pass through the body of \<^verbatim>\<open>invoke\<close> can meet, in the order of its steps:
  the request cannot be marshalled, the POST fails (endpoint unreachable, timeout), the
  body cannot be read, the body is not a JSON envelope, or an envelope is decoded.
\<close>

datatype exchange =
    MarshalFailed error
  | PostFailed error
  | ReadFailed error
  | UnmarshalFailed error
  | Envelope ankiResponse

text \<open>
  Everything outside the program that its functions consult. \<open>Post\<close> is the endpoint:
  given the URL, the requests sent before and the request sent now, it fixes what the
  exchange yields. \<open>Stat\<close> tells whether \<^verbatim>\<open>os.Stat\<close> returns no error for a path,
  \<open>ReadFile\<close> is \<^verbatim>\<open>os.ReadFile\<close>, and \<open>EncodeToString\<close> and \<open>DecodeString\<close> are
  those of \<^verbatim>\<open>base64.StdEncoding\<close>.
\<close>

record env =
  Post :: "string \<Rightarrow> ankiRequest list \<Rightarrow> ankiRequest \<Rightarrow> exchange"
  Stat :: "string \<Rightarrow> bool"
  ReadFile :: "string \<Rightarrow> error + string"
  EncodeToString :: "string \<Rightarrow> string"
  DecodeString :: "string \<Rightarrow> error + string"

text \<open>
  \<^verbatim>\<open>invoke\<close> returns Go's pair of a result and an error (\<open>None\<close> is the nil error),
  together with the requests sent so far, the new one appended.
\<close>

definition invoke ::
  "env \<Rightarrow> AnkiConnect \<Rightarrow> ankiRequest list \<Rightarrow> string \<Rightarrow> gvalue option
     \<Rightarrow> (json \<times> error option) \<times> ankiRequest list" where
  "invoke e ac sent action params =
     (let req = \<lparr>Action = action, Version_req = Version ac, Params = params\<rparr> in
      ((case Post e (URL ac) sent req of
          MarshalFailed err \<Rightarrow> (JNull, Some (''failed to marshal request: '' @ err))
        | PostFailed err \<Rightarrow> (JNull, Some (''failed to connect to AnkiConnect: '' @ err))
        | ReadFailed err \<Rightarrow> (JNull, Some (''failed to read response: '' @ err))
        | UnmarshalFailed err \<Rightarrow> (JNull, Some (''failed to unmarshal response: '' @ err))
        | Envelope response \<Rightarrow>
            if Error response = [] then (Result response, None)
            else (JNull, Some (''AnkiConnect error: '' @ Error response))),
       sent @ [req]))"

text \<open>The loop shared by \<^verbatim>\<open>GetDeckNames\<close>, \<^verbatim>\<open>GetModelNames\<close> and
  \<^verbatim>\<open>GetModelFieldNames\<close>: every element must be a string, or the wrapper fails with
  its own message.\<close>

fun stringsOf :: "error \<Rightarrow> json list \<Rightarrow> error + string list" where
  "stringsOf msg [] = Inr []"
| "stringsOf msg (name # names) =
     (case as_string name of
        None \<Rightarrow> Inl msg
      | Some s \<Rightarrow> (case stringsOf msg names of Inl err \<Rightarrow> Inl err | Inr ss \<Rightarrow> Inr (s # ss)))"

definition Ping :: "env \<Rightarrow> AnkiConnect \<Rightarrow> ankiRequest list \<Rightarrow> error option \<times> ankiRequest list" where
  "Ping e ac sent = (case invoke e ac sent ''version'' None of ((_, err), sent') \<Rightarrow> (err, sent'))"

definition GetDeckNames ::
  "env \<Rightarrow> AnkiConnect \<Rightarrow> ankiRequest list \<Rightarrow> (error + string list) \<times> ankiRequest list" where
  "GetDeckNames e ac sent =
     (case invoke e ac sent ''deckNames'' None of
        ((_, Some err), sent') \<Rightarrow> (Inl err, sent')
      | ((result, None), sent') \<Rightarrow>
          (case as_array result of
             None \<Rightarrow> (Inl ''unexpected response type'', sent')
           | Some names \<Rightarrow> (stringsOf ''unexpected deck name type'' names, sent')))"

definition CreateDeck ::
  "env \<Rightarrow> AnkiConnect \<Rightarrow> ankiRequest list \<Rightarrow> string \<Rightarrow> error option \<times> ankiRequest list" where
  "CreateDeck e ac sent name =
     (case invoke e ac sent ''createDeck'' (Some (VStringMap [(''deck'', name)])) of
        ((_, err), sent') \<Rightarrow> (err, sent'))"

definition DeleteDeck ::
  "env \<Rightarrow> AnkiConnect \<Rightarrow> ankiRequest list \<Rightarrow> string \<Rightarrow> error option \<times> ankiRequest list" where
  "DeleteDeck e ac sent name =
     (case invoke e ac sent ''deleteDecks''
             (Some (VMap [(''decks'', VStrings [name]), (''cardsToo'', VBool True)])) of
        ((_, err), sent') \<Rightarrow> (err, sent'))"

definition AddNote ::
  "env \<Rightarrow> AnkiConnect \<Rightarrow> ankiRequest list \<Rightarrow> Note \<Rightarrow> (error + int) \<times> ankiRequest list" where
  "AddNote e ac sent note =
     (case invoke e ac sent ''addNote'' (Some (VMap [(''note'', VNote note)])) of
        ((_, Some err), sent') \<Rightarrow> (Inl err, sent')
      | ((result, None), sent') \<Rightarrow>
          (case as_float64 result of
             Some nid \<Rightarrow> (Inr (int64 nid), sent')
           | None \<Rightarrow> (Inl ''unexpected note ID type'', sent')))"

fun noteIDsOf :: "json list \<Rightarrow> error + int list" where
  "noteIDsOf [] = Inr []"
| "noteIDsOf (x # ids) =
     (case as_float64 x of
        Some fid \<Rightarrow> (case noteIDsOf ids of Inl err \<Rightarrow> Inl err | Inr ns \<Rightarrow> Inr (int64 fid # ns))
      | None \<Rightarrow> Inl ''unexpected note ID type'')"

definition FindNotes ::
  "env \<Rightarrow> AnkiConnect \<Rightarrow> ankiRequest list \<Rightarrow> string \<Rightarrow> (error + int list) \<times> ankiRequest list" where
  "FindNotes e ac sent query =
     (case invoke e ac sent ''findNotes'' (Some (VStringMap [(''query'', query)])) of
        ((_, Some err), sent') \<Rightarrow> (Inl err, sent')
      | ((result, None), sent') \<Rightarrow>
          (case as_array result of
             None \<Rightarrow> (Inl ''unexpected response type'', sent')
           | Some ids \<Rightarrow> (noteIDsOf ids, sent')))"

definition UpdateNoteFields ::
  "env \<Rightarrow> AnkiConnect \<Rightarrow> ankiRequest list \<Rightarrow> int \<Rightarrow> (string \<times> string) list
     \<Rightarrow> error option \<times> ankiRequest list" where
  "UpdateNoteFields e ac sent noteID fields' =
     (case invoke e ac sent ''updateNoteFields''
             (Some (VMap [(''note'', VMap [(''id'', VInt64 noteID), (''fields'', VStringMap fields')])])) of
        ((_, err), sent') \<Rightarrow> (err, sent'))"

definition StoreMediaFile ::
  "env \<Rightarrow> AnkiConnect \<Rightarrow> ankiRequest list \<Rightarrow> string \<Rightarrow> string \<Rightarrow> error option \<times> ankiRequest list" where
  "StoreMediaFile e ac sent filename data =
     (let encodedData = EncodeToString e data in
      case invoke e ac sent ''storeMediaFile''
             (Some (VMap [(''filename'', VString filename), (''data'', VString encodedData)])) of
        ((_, err), sent') \<Rightarrow> (err, sent'))"

definition Sync :: "env \<Rightarrow> AnkiConnect \<Rightarrow> ankiRequest list \<Rightarrow> error option \<times> ankiRequest list" where
  "Sync e ac sent = (case invoke e ac sent ''sync'' None of ((_, err), sent') \<Rightarrow> (err, sent'))"

fun noteMapsOf :: "json list \<Rightarrow> error + (string \<times> json) list list" where
  "noteMapsOf [] = Inr []"
| "noteMapsOf (note # notes) =
     (case as_object note of
        None \<Rightarrow> Inl ''unexpected note type''
      | Some noteMap \<Rightarrow>
          (case noteMapsOf notes of Inl err \<Rightarrow> Inl err | Inr ms \<Rightarrow> Inr (noteMap # ms)))"

definition GetNotesInfo ::
  "env \<Rightarrow> AnkiConnect \<Rightarrow> ankiRequest list \<Rightarrow> int list
     \<Rightarrow> (error + (string \<times> json) list list) \<times> ankiRequest list" where
  "GetNotesInfo e ac sent noteIDs =
     (case invoke e ac sent ''notesInfo'' (Some (VMap [(''notes'', VInt64s noteIDs)])) of
        ((_, Some err), sent') \<Rightarrow> (Inl err, sent')
      | ((result, None), sent') \<Rightarrow>
          (case as_array result of
             None \<Rightarrow> (Inl ''unexpected response type'', sent')
           | Some notes \<Rightarrow> (noteMapsOf notes, sent')))"

definition GetModelNames ::
  "env \<Rightarrow> AnkiConnect \<Rightarrow> ankiRequest list \<Rightarrow> (error + string list) \<times> ankiRequest list" where
  "GetModelNames e ac sent =
     (case invoke e ac sent ''modelNames'' None of
        ((_, Some err), sent') \<Rightarrow> (Inl err, sent')
      | ((result, None), sent') \<Rightarrow>
          (case as_array result of
             None \<Rightarrow> (Inl ''unexpected response type'', sent')
           | Some names \<Rightarrow> (stringsOf ''unexpected model name type'' names, sent')))"

definition GetModelFieldNames ::
  "env \<Rightarrow> AnkiConnect \<Rightarrow> ankiRequest list \<Rightarrow> string \<Rightarrow> (error + string list) \<times> ankiRequest list" where
  "GetModelFieldNames e ac sent modelName =
     (case invoke e ac sent ''modelFieldNames'' (Some (VStringMap [(''modelName'', modelName)])) of
        ((_, Some err), sent') \<Rightarrow> (Inl err, sent')
      | ((result, None), sent') \<Rightarrow>
          (case as_array result of
             None \<Rightarrow> (Inl ''unexpected response type'', sent')
           | Some names \<Rightarrow> (stringsOf ''unexpected field name type'' names, sent')))"


section \<open>The tool adapter (main.go)\<close>

record TextContent =
  Type :: string
  Text :: string

record CallToolResult =
  Content :: "TextContent list"
  IsError :: bool

record AnkiMCPServer =
  ankiClient :: AnkiConnect

text \<open>A Go call either returns or panics; a panic carries the text of the runtime error.\<close>

datatype 'a go = Return 'a | Panic string

text \<open>A handler returns the pair \<^verbatim>\<open>(*mcp.CallToolResult, error)\<close>, and leaves behind the
  requests sent to the endpoint.\<close>

type_synonym handled = "(CallToolResult \<times> error option) go \<times> ankiRequest list"

definition errorResult :: "string \<Rightarrow> CallToolResult" where
  "errorResult message =
     \<lparr>Content = [\<lparr>Type = ''text'', Text = ''Error: '' @ message\<rparr>], IsError = True\<rparr>"

text \<open>The literal every handler builds on success: one text content, and \<^verbatim>\<open>IsError\<close>
  left at its zero value.\<close>

definition textResult :: "string \<Rightarrow> CallToolResult" where
  "textResult text = \<lparr>Content = [\<lparr>Type = ''text'', Text = text\<rparr>], IsError = False\<rparr>"

text \<open>The optional arguments, as \<^verbatim>\<open>handleCreateCard\<close>, \<^verbatim>\<open>handleCreateCardWithMedia\<close>
  and \<^verbatim>\<open>handleSearchCards\<close> read them: the model name, the tags (the elements of the
  array that are strings, in order) and the limit.\<close>

definition modelNameOf :: "(string \<rightharpoonup> json) \<Rightarrow> string" where
  "modelNameOf args =
     (case as_string (index args ''model_name'') of
        Some model \<Rightarrow> if model = [] then ''Basic'' else model
      | None \<Rightarrow> ''Basic'')"

fun stringElems :: "json list \<Rightarrow> string list" where
  "stringElems [] = []"
| "stringElems (tag # rest) =
     (case as_string tag of Some tagStr \<Rightarrow> tagStr # stringElems rest | None \<Rightarrow> stringElems rest)"

definition tagsOf :: "json \<Rightarrow> string list" where
  "tagsOf v = (case as_array v of Some tagsInterface \<Rightarrow> stringElems tagsInterface | None \<Rightarrow> [])"

definition limitOf :: "(string \<rightharpoonup> json) \<Rightarrow> int" where
  "limitOf args =
     (case as_string (index args ''limit'') of
        Some limitStr \<Rightarrow>
          if limitStr = [] then 10
          else (case Atoi limitStr of
                  Some parsedLimit \<Rightarrow> if parsedLimit > 0 then parsedLimit else 10
                | None \<Rightarrow> 10)
      | None \<Rightarrow> 10)"

definition handleCreateCard ::
  "env \<Rightarrow> AnkiMCPServer \<Rightarrow> ankiRequest list \<Rightarrow> (string \<rightharpoonup> json) \<Rightarrow> handled" where
  "handleCreateCard e a sent args =
     (case as_string (index args ''deck_name'') of
        None \<Rightarrow> (Return (errorResult ''deck_name is required and must be a string'', None), sent)
      | Some deckName \<Rightarrow>
     (case as_string (index args ''front'') of
        None \<Rightarrow> (Return (errorResult ''front is required and must be a string'', None), sent)
      | Some front \<Rightarrow>
     (case as_string (index args ''back'') of
        None \<Rightarrow> (Return (errorResult ''back is required and must be a string'', None), sent)
      | Some back \<Rightarrow>
         (let modelName = modelNameOf args;
              tags = tagsOf (index args ''tags'');
              note = \<lparr>DeckName = deckName, ModelName = modelName,
                      Fields = [(''Front'', front), (''Back'', back)],
                      Tags = tags, Audio = [], Picture = [], Video = [],
                      Options = [(''allowDuplicate'', JBool False)]\<rparr>
          in case AddNote e (ankiClient a) sent note of
               (Inl err, sent') \<Rightarrow>
                 (Return (errorResult (''Failed to create card: '' @ err), None), sent')
             | (Inr noteID, sent') \<Rightarrow>
                 (Return (textResult (''Successfully created card with ID: '' @ fmt_d noteID), None),
                  sent')))))"

definition handleListDecks ::
  "env \<Rightarrow> AnkiMCPServer \<Rightarrow> ankiRequest list \<Rightarrow> (string \<rightharpoonup> json) \<Rightarrow> handled" where
  "handleListDecks e a sent args =
     (case GetDeckNames e (ankiClient a) sent of
        (Inl err, sent') \<Rightarrow>
          (Return (errorResult (''Failed to get deck names: '' @ err), None), sent')
      | (Inr decks, sent') \<Rightarrow>
          (let deckList = Join decks ''\<newline>'' in
           (Return (textResult (''Available decks ('' @ fmt_d (int (length decks)) @ ''):\<newline>''
                                 @ deckList), None),
            sent')))"

definition handleCreateDeck ::
  "env \<Rightarrow> AnkiMCPServer \<Rightarrow> ankiRequest list \<Rightarrow> (string \<rightharpoonup> json) \<Rightarrow> handled" where
  "handleCreateDeck e a sent args =
     (case as_string (index args ''deck_name'') of
        None \<Rightarrow> (Return (errorResult ''deck_name is required and must be a string'', None), sent)
      | Some deckName \<Rightarrow>
          (case CreateDeck e (ankiClient a) sent deckName of
             (Some err, sent') \<Rightarrow>
               (Return (errorResult (''Failed to create deck: '' @ err), None), sent')
           | (None, sent') \<Rightarrow>
               (Return (textResult (''Successfully created deck: '' @ deckName), None), sent')))"

text \<open>The text of the field \<^verbatim>\<open>Front\<close> or \<^verbatim>\<open>Back\<close> of a note's \<^verbatim>\<open>fields\<close> object: the
  string under \<^verbatim>\<open>value\<close>, and the empty string when the field is not an object or
  its value is not a string.\<close>

definition fieldValue :: "(string \<times> json) list \<Rightarrow> string \<Rightarrow> string" where
  "fieldValue fields' name =
     (case as_object (index (map_of fields') name) of
        Some field \<Rightarrow>
          (case as_string (index (map_of field) ''value'') of Some v \<Rightarrow> v | None \<Rightarrow> [])
      | None \<Rightarrow> [])"

definition renderNote :: "int \<Rightarrow> (string \<times> json) list \<Rightarrow> (string \<times> json) list \<Rightarrow> string" where
  "renderNote noteID noteInfo fields' =
     (let front = fieldValue fields' ''Front'';
          back = fieldValue fields' ''Back'';
          tags = tagsOf (index (map_of noteInfo) ''tags'');
          result = ''ID: '' @ fmt_d noteID @ ''\<newline>Front: '' @ front @ ''\<newline>Back: '' @ back
      in if length tags > 0 then result @ ''\<newline>Tags: '' @ Join tags '', '' else result)"

text \<open>The loop of \<^verbatim>\<open>handleSearchCards\<close> over \<^verbatim>\<open>notesInfo\<close>, with its index \<open>i\<close> and
  the results so far. Reading \<^verbatim>\<open>noteIDs[i]\<close> beyond the end of the slice panics.\<close>

fun renderNotes ::
  "int list \<Rightarrow> nat \<Rightarrow> (string \<times> json) list list \<Rightarrow> string list \<Rightarrow> string list go" where
  "renderNotes noteIDs i [] results = Return results"
| "renderNotes noteIDs i (noteInfo # rest) results =
     (if i < length noteIDs then
        (let noteID = noteIDs ! i in
         case as_object (index (map_of noteInfo) ''fields'') of
           None \<Rightarrow> renderNotes noteIDs (Suc i) rest results
         | Some fields' \<Rightarrow>
             renderNotes noteIDs (Suc i) rest (results @ [renderNote noteID noteInfo fields']))
      else Panic (''runtime error: index out of range ['' @ fmt_d (int i) @ ''] with length ''
                    @ fmt_d (int (length noteIDs))))"

text \<open>In \<^verbatim>\<open>handleSearchCards\<close> the variable \<^verbatim>\<open>noteIDs\<close> first holds what \<^verbatim>\<open>FindNotes\<close>
  returned (\<open>found\<close> below) and is then overwritten by its first \<^verbatim>\<open>limit\<close> elements.\<close>

definition handleSearchCards ::
  "env \<Rightarrow> AnkiMCPServer \<Rightarrow> ankiRequest list \<Rightarrow> (string \<rightharpoonup> json) \<Rightarrow> handled" where
  "handleSearchCards e a sent args =
     (case as_string (index args ''query'') of
        None \<Rightarrow> (Return (errorResult ''query is required and must be a string'', None), sent)
      | Some query \<Rightarrow>
         (let limit = limitOf args in
          case FindNotes e (ankiClient a) sent query of
            (Inl err, sent') \<Rightarrow>
              (Return (errorResult (''Failed to search cards: '' @ err), None), sent')
          | (Inr found, sent') \<Rightarrow>
              if length found = 0 then
                (Return (textResult ''No cards found matching the query.'', None), sent')
              else
                (let noteIDs = (if int (length found) > limit then take (nat limit) found else found) in
                 case GetNotesInfo e (ankiClient a) sent' noteIDs of
                   (Inl err, sent'') \<Rightarrow>
                     (Return (errorResult (''Failed to get note details: '' @ err), None), sent'')
                 | (Inr notesInfo, sent'') \<Rightarrow>
                     (case renderNotes noteIDs 0 notesInfo [] of
                        Panic msg \<Rightarrow> (Panic msg, sent'')
                      | Return results \<Rightarrow>
                          (Return (textResult
                             (''Found '' @ fmt_d (int (length noteIDs)) @ '' cards (showing ''
                                @ fmt_d (int (length results)) @ ''):\<newline>\<newline>''
                                @ Join results ''\<newline>\<newline>---\<newline>\<newline>''), None),
                           sent'')))))"


text \<open>\<^verbatim>\<open>fileToBase64\<close> and \<^verbatim>\<open>processMediaData\<close>: a data URI, a path of an existing
  file, or data taken to be base64 already.\<close>

definition fileToBase64 :: "env \<Rightarrow> string \<Rightarrow> error + string" where
  "fileToBase64 e filePath =
     (case ReadFile e filePath of
        Inl err \<Rightarrow> Inl (''failed to read file '' @ filePath @ '': '' @ err)
      | Inr data \<Rightarrow> Inr (EncodeToString e data))"

definition processMediaData :: "env \<Rightarrow> string \<Rightarrow> error + string" where
  "processMediaData e data =
     (if HasPrefix data ''data:'' then
        (let parts = Split data CHR '','' in
         if length parts = 2 then Inr (parts ! 1) else Inl ''invalid data URI format'')
      else if (Contains data ''/'' \<or> Contains data [CHR 0x5C]) \<and> \<not> Contains data ''base64,''
              \<and> Stat e data
        then fileToBase64 e data
      else Inr data)"

definition handleAddMedia ::
  "env \<Rightarrow> AnkiMCPServer \<Rightarrow> ankiRequest list \<Rightarrow> (string \<rightharpoonup> json) \<Rightarrow> handled" where
  "handleAddMedia e a sent args =
     (case as_string (index args ''filename'') of
        None \<Rightarrow> (Return (errorResult ''filename is required and must be a string'', None), sent)
      | Some filename \<Rightarrow>
     (case as_string (index args ''data'') of
        None \<Rightarrow> (Return (errorResult ''data is required and must be a string'', None), sent)
      | Some dataStr \<Rightarrow>
     (case processMediaData e dataStr of
        Inl err \<Rightarrow>
          (Return (errorResult (''Failed to process media data: '' @ err), None), sent)
      | Inr processedData \<Rightarrow>
     (case DecodeString e processedData of
        Inl err \<Rightarrow>
          (Return (errorResult (''Failed to decode base64 data: '' @ err), None), sent)
      | Inr data \<Rightarrow>
          (case StoreMediaFile e (ankiClient a) sent filename data of
             (Some err, sent') \<Rightarrow>
               (Return (errorResult (''Failed to store media file: '' @ err), None), sent')
           | (None, sent') \<Rightarrow>
               (Return (textResult (''Successfully stored media file: '' @ filename), None),
                sent'))))))"

text \<open>One media slot of \<^verbatim>\<open>handleCreateCardWithMedia\<close> (audio, then image): nothing is
  attached unless the filename and the data are both non-empty strings; the data is
  resolved by \<^verbatim>\<open>processMediaData\<close>, whose failure ends the handler.\<close>

definition mediaSlot ::
  "env \<Rightarrow> (string \<rightharpoonup> json) \<Rightarrow> string \<Rightarrow> string \<Rightarrow> error + MediaFile list" where
  "mediaSlot e args filenameKey dataKey =
     (case as_string (index args filenameKey) of
        None \<Rightarrow> Inr []
      | Some filename \<Rightarrow>
          if filename = [] then Inr []
          else (case as_string (index args dataKey) of
                  None \<Rightarrow> Inr []
                | Some mediaData \<Rightarrow>
                    if mediaData = [] then Inr []
                    else (case processMediaData e mediaData of
                            Inl err \<Rightarrow> Inl err
                          | Inr processedData \<Rightarrow>
                              Inr [\<lparr>Path = [], Filename = filename, Fields_media = [],
                                    Data = processedData\<rparr>])))"

definition handleCreateCardWithMedia ::
  "env \<Rightarrow> AnkiMCPServer \<Rightarrow> ankiRequest list \<Rightarrow> (string \<rightharpoonup> json) \<Rightarrow> handled" where
  "handleCreateCardWithMedia e a sent args =
     (case as_string (index args ''deck_name'') of
        None \<Rightarrow> (Return (errorResult ''deck_name is required and must be a string'', None), sent)
      | Some deckName \<Rightarrow>
     (case as_string (index args ''front'') of
        None \<Rightarrow> (Return (errorResult ''front is required and must be a string'', None), sent)
      | Some front \<Rightarrow>
     (case as_string (index args ''back'') of
        None \<Rightarrow> (Return (errorResult ''back is required and must be a string'', None), sent)
      | Some back \<Rightarrow>
         (let modelName = modelNameOf args;
              tags = tagsOf (index args ''tags'');
              note = \<lparr>DeckName = deckName, ModelName = modelName,
                      Fields = [(''Front'', front), (''Back'', back)],
                      Tags = tags, Audio = [], Picture = [], Video = [],
                      Options = [(''allowDuplicate'', JBool False)]\<rparr>
          in case mediaSlot e args ''audio_filename'' ''audio_data'' of
               Inl err \<Rightarrow>
                 (Return (errorResult (''Failed to process audio data: '' @ err), None), sent)
             | Inr audio \<Rightarrow>
            (case mediaSlot e args ''image_filename'' ''image_data'' of
               Inl err \<Rightarrow>
                 (Return (errorResult (''Failed to process image data: '' @ err), None), sent)
             | Inr picture \<Rightarrow>
            (case AddNote e (ankiClient a) sent
                    (note\<lparr>Audio := Audio note @ audio, Picture := Picture note @ picture\<rparr>) of
               (Inl err, sent') \<Rightarrow>
                 (Return (errorResult (''Failed to create card with media: '' @ err), None), sent')
             | (Inr noteID, sent') \<Rightarrow>
                 (Return (textResult (''Successfully created card with media, ID: '' @ fmt_d noteID),
                          None),
                  sent')))))))"

definition handleGetModels ::
  "env \<Rightarrow> AnkiMCPServer \<Rightarrow> ankiRequest list \<Rightarrow> (string \<rightharpoonup> json) \<Rightarrow> handled" where
  "handleGetModels e a sent args =
     (case GetModelNames e (ankiClient a) sent of
        (Inl err, sent') \<Rightarrow>
          (Return (errorResult (''Failed to get models: '' @ err), None), sent')
      | (Inr models, sent') \<Rightarrow>
          (let modelList = Join models ''\<newline>'' in
           (Return (textResult (''Available models ('' @ fmt_d (int (length models)) @ ''):\<newline>''
                                 @ modelList), None),
            sent')))"

definition handleGetModelFields ::
  "env \<Rightarrow> AnkiMCPServer \<Rightarrow> ankiRequest list \<Rightarrow> (string \<rightharpoonup> json) \<Rightarrow> handled" where
  "handleGetModelFields e a sent args =
     (case as_string (index args ''model_name'') of
        None \<Rightarrow> (Return (errorResult ''model_name is required and must be a string'', None), sent)
      | Some modelName \<Rightarrow>
          (case GetModelFieldNames e (ankiClient a) sent modelName of
             (Inl err, sent') \<Rightarrow>
               (Return (errorResult (''Failed to get model fields: '' @ err), None), sent')
           | (Inr names, sent') \<Rightarrow>
               (let fieldList = Join names ''\<newline>'' in
                (Return (textResult (''Fields for model '' @ [CHR 0x27] @ modelName @ [CHR 0x27]
                                      @ '' ('' @ fmt_d (int (length names)) @ ''):\<newline>''
                                      @ fieldList), None),
                 sent'))))"

definition handleSync ::
  "env \<Rightarrow> AnkiMCPServer \<Rightarrow> ankiRequest list \<Rightarrow> (string \<rightharpoonup> json) \<Rightarrow> handled" where
  "handleSync e a sent args =
     (case Sync e (ankiClient a) sent of
        (Some err, sent') \<Rightarrow> (Return (errorResult (''Failed to sync: '' @ err), None), sent')
      | (None, sent') \<Rightarrow>
          (Return (textResult ''Successfully triggered sync with AnkiWeb'', None), sent'))"

definition handlePing ::
  "env \<Rightarrow> AnkiMCPServer \<Rightarrow> ankiRequest list \<Rightarrow> (string \<rightharpoonup> json) \<Rightarrow> handled" where
  "handlePing e a sent args =
     (case Ping e (ankiClient a) sent of
        (Some err, sent') \<Rightarrow>
          (Return (errorResult (''AnkiConnect is not available: '' @ err), None), sent')
      | (None, sent') \<Rightarrow>
          (Return (textResult ''AnkiConnect is available and responding'', None), sent'))"


section \<open>Environments and inputs of the examples\<close>

text \<open>
  An environment for the concrete examples below. The endpoint answers by the action of
  the request, from a table, and refuses the connection for an action that is not in
  it; the files are those of a second table; the base64 codec is left as the identity,
  and no example depends on it.
\<close>

definition exampleEnv :: "(string \<times> exchange) list \<Rightarrow> (string \<times> string) list \<Rightarrow> env" where
  "exampleEnv answers files =
     \<lparr>Post = (\<lambda>url sent req.
               case map_of answers (Action req) of
                 Some x \<Rightarrow> x
               | None \<Rightarrow> PostFailed ''connection refused''),
      Stat = (\<lambda>path. case map_of files path of Some _ \<Rightarrow> True | None \<Rightarrow> False),
      ReadFile = (\<lambda>path.
               case map_of files path of
                 Some bytes \<Rightarrow> Inr bytes
               | None \<Rightarrow> Inl ''no such file or directory''),
      EncodeToString = (\<lambda>bytes. bytes),
      DecodeString = (\<lambda>s. Inr s)\<rparr>"

definition exampleServer :: AnkiMCPServer where
  "exampleServer = \<lparr>ankiClient = NewAnkiConnect\<rparr>"

definition ok :: "json \<Rightarrow> exchange" where
  "ok v = Envelope \<lparr>Result = v, Error = []\<rparr>"

text \<open>A note object as \<open>notesInfo\<close> answers it, with both fields and string tags.\<close>

definition noteObject :: "real \<Rightarrow> string \<Rightarrow> string \<Rightarrow> string list \<Rightarrow> json" where
  "noteObject noteId front back tags =
     JObj [(''noteId'', JNum noteId),
           (''modelName'', JStr ''Basic''),
           (''tags'', JArr (map JStr tags)),
           (''fields'', JObj [(''Front'', JObj [(''value'', JStr front), (''order'', JNum 0)]),
                              (''Back'', JObj [(''value'', JStr back), (''order'', JNum 1)])])]"


section \<open>Facts about the model\<close>

subsection \<open>Library functions\<close>

lemma Split_not_Nil: "Split s sep \<noteq> []"
  by (induction s) (simp_all split: list.splits)

lemma length_Split: "length (Split s sep) = Suc (count_list s sep)"
  using Split_not_Nil [of _ sep]
  by (induction s) (auto split: list.splits)

lemma Split_no_sep: "count_list s sep = 0 \<Longrightarrow> Split s sep = [s]"
  by (induction s) (auto split: if_splits)

lemma Split_one_sep:
  "count_list s sep = 1 \<Longrightarrow>
     Split s sep = [takeWhile (\<lambda>c. c \<noteq> sep) s, tl (dropWhile (\<lambda>c. c \<noteq> sep) s)]"
proof (induction s)
  case Nil
  then show ?case by simp
next
  case (Cons c cs)
  show ?case
  proof (cases "c = sep")
    case True
    with Cons.prems have "count_list cs sep = 0" by simp
    with True show ?thesis by (simp add: Split_no_sep)
  next
    case False
    with Cons.prems have "count_list cs sep = 1" by simp
    with False Cons.IH show ?thesis by simp
  qed
qed

lemma Atoi_empty: "Atoi [] = None"
  by (simp add: Atoi_def)

lemma processMediaData_existing_file:
  "processMediaData (exampleEnv [] [(''/tmp/a.png'', ''PNG'')]) ''/tmp/a.png'' = Inr ''PNG''"
  by (simp add: processMediaData_def HasPrefix_def exampleEnv_def fileToBase64_def)

subsection \<open>The wrappers of the client\<close>

lemma stringsOf_strings: "stringsOf msg (map JStr names) = Inr names"
  by (induction names) simp_all

lemma invoke_sent:
  "snd (invoke e ac sent action params)
     = sent @ [\<lparr>Action = action, Version_req = Version ac, Params = params\<rparr>]"
  by (simp add: invoke_def Let_def)

lemma GetDeckNames_strings:
  assumes "fst (invoke e ac sent ''deckNames'' None) = (JArr (map JStr names), None)"
  shows "fst (GetDeckNames e ac sent) = Inr names"
  using assms
  by (cases "invoke e ac sent ''deckNames'' None")
     (simp add: GetDeckNames_def stringsOf_strings)

lemma FindNotes_empty:
  assumes "fst (invoke e ac sent ''findNotes'' (Some (VStringMap [(''query'', query)]))) = (JArr [], None)"
  shows "FindNotes e ac sent query
           = (Inr [], sent @ [\<lparr>Action = ''findNotes'', Version_req = Version ac,
                                Params = Some (VStringMap [(''query'', query)])\<rparr>])"
  using assms invoke_sent [of e ac sent "''findNotes''" "Some (VStringMap [(''query'', query)])"]
  by (cases "invoke e ac sent ''findNotes'' (Some (VStringMap [(''query'', query)]))")
     (simp add: FindNotes_def)

lemma AddNote_sent:
  "snd (AddNote e ac sent note)
     = sent @ [\<lparr>Action = ''addNote'', Version_req = Version ac,
                Params = Some (VMap [(''note'', VNote note)])\<rparr>]"
  using invoke_sent [of e ac sent "''addNote''" "Some (VMap [(''note'', VNote note)])"]
  by (cases "invoke e ac sent ''addNote'' (Some (VMap [(''note'', VNote note)]))")
     (auto simp add: AddNote_def split: option.splits)

lemma FindNotes_sent:
  "snd (FindNotes e ac sent query)
     = sent @ [\<lparr>Action = ''findNotes'', Version_req = Version ac,
                Params = Some (VStringMap [(''query'', query)])\<rparr>]"
  using invoke_sent [of e ac sent "''findNotes''" "Some (VStringMap [(''query'', query)])"]
  by (cases "invoke e ac sent ''findNotes'' (Some (VStringMap [(''query'', query)]))")
     (auto simp add: FindNotes_def split: option.splits)

lemma GetNotesInfo_sent:
  "snd (GetNotesInfo e ac sent noteIDs)
     = sent @ [\<lparr>Action = ''notesInfo'', Version_req = Version ac,
                Params = Some (VMap [(''notes'', VInt64s noteIDs)])\<rparr>]"
  using invoke_sent [of e ac sent "''notesInfo''" "Some (VMap [(''notes'', VInt64s noteIDs)])"]
  by (cases "invoke e ac sent ''notesInfo'' (Some (VMap [(''notes'', VInt64s noteIDs)]))")
     (auto simp add: GetNotesInfo_def split: option.splits)

subsection \<open>Reading the argument bag\<close>

lemma index_upd [simp]:
  "index (args(k \<mapsto> v)) k' = (if k' = k then v else index args k')"
  "index (args(k := None)) k' = (if k' = k then JNull else index args k')"
  by (simp_all add: index_def)

lemma stringElems_filter:
  "map JStr (stringElems xs) = filter (\<lambda>v. as_string v \<noteq> None) xs"
proof (induction xs)
  case Nil
  then show ?case by simp
next
  case (Cons x xs)
  then show ?case by (cases x) simp_all
qed

lemma stringElems_strings: "stringElems (map JStr ts) = ts"
  by (induction ts) simp_all

lemma tagsOf_filter:
  "map JStr (tagsOf v)
     = filter (\<lambda>x. as_string x \<noteq> None) (case as_array v of Some ts \<Rightarrow> ts | None \<Rightarrow> [])"
  by (cases v) (simp_all add: tagsOf_def stringElems_filter)

lemma tagsOf_default: "as_array v = None \<or> v = JArr [] \<Longrightarrow> tagsOf v = []"
  by (auto simp add: tagsOf_def)

lemma modelNameOf_default:
  "as_string (index args ''model_name'') = None \<or> index args ''model_name'' = JStr []
     \<Longrightarrow> modelNameOf args = ''Basic''"
  by (auto simp add: modelNameOf_def)

lemma limitOf_default:
  "as_string (index args ''limit'') = None \<or> index args ''limit'' = JStr []
     \<Longrightarrow> limitOf args = 10"
  by (auto simp add: limitOf_def)

lemma limitOf_unparseable:
  "as_string (index args ''limit'') = Some limitStr \<Longrightarrow> Atoi limitStr = None \<Longrightarrow> limitOf args = 10"
  by (simp add: limitOf_def)

lemma limitOf_nonpositive:
  "as_string (index args ''limit'') = Some limitStr \<Longrightarrow> Atoi limitStr = Some n \<Longrightarrow> n \<le> 0
     \<Longrightarrow> limitOf args = 10"
  by (simp add: limitOf_def)

lemma limitOf_positive:
  "as_string (index args ''limit'') = Some limitStr \<Longrightarrow> Atoi limitStr = Some n \<Longrightarrow> 0 < n
     \<Longrightarrow> limitOf args = n"
  by (auto simp add: limitOf_def Atoi_empty)

subsection \<open>What a handler reads of its arguments\<close>

lemma handleCreateCard_reads:
  assumes "index args1 ''deck_name'' = index args2 ''deck_name''"
    and "index args1 ''front'' = index args2 ''front''"
    and "index args1 ''back'' = index args2 ''back''"
    and "modelNameOf args1 = modelNameOf args2"
    and "tagsOf (index args1 ''tags'') = tagsOf (index args2 ''tags'')"
  shows "handleCreateCard e a sent args1 = handleCreateCard e a sent args2"
  unfolding handleCreateCard_def assms by (rule refl)

lemma mediaSlot_reads:
  assumes "index args1 fk = index args2 fk" and "index args1 dk = index args2 dk"
  shows "mediaSlot e args1 fk dk = mediaSlot e args2 fk dk"
  unfolding mediaSlot_def assms by (rule refl)

lemma handleCreateCardWithMedia_reads:
  assumes "index args1 ''deck_name'' = index args2 ''deck_name''"
    and "index args1 ''front'' = index args2 ''front''"
    and "index args1 ''back'' = index args2 ''back''"
    and "modelNameOf args1 = modelNameOf args2"
    and "tagsOf (index args1 ''tags'') = tagsOf (index args2 ''tags'')"
    and "mediaSlot e args1 ''audio_filename'' ''audio_data''
           = mediaSlot e args2 ''audio_filename'' ''audio_data''"
    and "mediaSlot e args1 ''image_filename'' ''image_data''
           = mediaSlot e args2 ''image_filename'' ''image_data''"
  shows "handleCreateCardWithMedia e a sent args1 = handleCreateCardWithMedia e a sent args2"
  unfolding handleCreateCardWithMedia_def assms by (rule refl)

lemma handleSearchCards_reads:
  assumes "index args1 ''query'' = index args2 ''query''"
    and "limitOf args1 = limitOf args2"
  shows "handleSearchCards e a sent args1 = handleSearchCards e a sent args2"
  unfolding handleSearchCards_def assms by (rule refl)

lemma modelNameOf_lenient:
  assumes "as_string v = None \<or> v = JStr []"
  shows "modelNameOf (args(''model_name'' \<mapsto> v)) = modelNameOf (args(''model_name'' := None))"
  using assms by (auto simp add: modelNameOf_def)

lemma limitOf_lenient:
  assumes "as_string v = None \<or> v = JStr []"
  shows "limitOf (args(''limit'' \<mapsto> v)) = limitOf (args(''limit'' := None))"
  using assms by (auto simp add: limitOf_def)

lemma mediaSlot_lenient_filename:
  assumes "as_string v = None \<or> v = JStr []"
  shows "mediaSlot e (args(fk \<mapsto> v)) fk dk = Inr []"
    and "mediaSlot e (args(fk := None)) fk dk = Inr []"
  using assms by (auto simp add: mediaSlot_def)

lemma mediaSlot_lenient_data:
  assumes "as_string v = None \<or> v = JStr []" and "fk \<noteq> dk"
  shows "mediaSlot e (args(dk \<mapsto> v)) fk dk = Inr []"
    and "mediaSlot e (args(dk := None)) fk dk = Inr []"
  using assms by (auto simp add: mediaSlot_def split: option.splits)

lemma mediaSlot_other:
  assumes "k \<noteq> fk" and "k \<noteq> dk"
  shows "mediaSlot e (args(k \<mapsto> v)) fk dk = mediaSlot e (args(k := None)) fk dk"
  using assms by (intro mediaSlot_reads) simp_all

lemma modelNameOf_other:
  assumes "k \<noteq> ''model_name''"
  shows "modelNameOf (args(k \<mapsto> v)) = modelNameOf (args(k := None))"
  using assms by (simp add: modelNameOf_def)

lemma limitOf_other:
  assumes "k \<noteq> ''limit''"
  shows "limitOf (args(k \<mapsto> v)) = limitOf (args(k := None))"
  using assms by (simp add: limitOf_def)

subsection \<open>The search and its rendering loop\<close>

lemma handleSearchCards_sent:
  assumes "as_string (index args ''query'') = Some query"
    and "fst (FindNotes e (ankiClient a) sent query) = Inr found"
    and "found \<noteq> []"
  shows "snd (handleSearchCards e a sent args)
           = sent @ [\<lparr>Action = ''findNotes'', Version_req = Version (ankiClient a),
                      Params = Some (VStringMap [(''query'', query)])\<rparr>,
                     \<lparr>Action = ''notesInfo'', Version_req = Version (ankiClient a),
                      Params = Some (VMap [(''notes'', VInt64s
                        (if int (length found) > limitOf args then take (nat (limitOf args)) found
                         else found))])\<rparr>]"
proof -
  define sent1 where "sent1 = snd (FindNotes e (ankiClient a) sent query)"
  define noteIDs where
    "noteIDs = (if int (length found) > limitOf args then take (nat (limitOf args)) found else found)"
  have f: "FindNotes e (ankiClient a) sent query = (Inr found, sent1)"
    using assms(2) by (simp add: sent1_def prod_eq_iff)
  have "snd (handleSearchCards e a sent args) = snd (GetNotesInfo e (ankiClient a) sent1 noteIDs)"
    using assms(1,3) f
    by (cases "GetNotesInfo e (ankiClient a) sent1 noteIDs")
       (auto simp add: handleSearchCards_def Let_def noteIDs_def split: sum.splits go.splits)
  then show ?thesis
    by (simp add: GetNotesInfo_sent sent1_def FindNotes_sent noteIDs_def)
qed

lemma renderNotes_within:
  "i + length notesInfo \<le> length noteIDs \<Longrightarrow>
     renderNotes noteIDs i notesInfo results
       = Return (results @ concat (map (\<lambda>(noteID, noteInfo).
                    case as_object (index (map_of noteInfo) ''fields'') of
                      None \<Rightarrow> []
                    | Some fields' \<Rightarrow> [renderNote noteID noteInfo fields'])
                  (zip (drop i noteIDs) notesInfo)))"
proof (induction notesInfo arbitrary: i results)
  case Nil
  then show ?case by simp
next
  case (Cons noteInfo rest)
  then have i: "i < length noteIDs" and rest: "Suc i + length rest \<le> length noteIDs"
    by simp_all
  have d: "drop i noteIDs = noteIDs ! i # drop (Suc i) noteIDs"
    using i by (simp add: Cons_nth_drop_Suc)
  show ?case
    using i Cons.IH [OF rest]
    by (simp add: d Let_def split: option.splits)
qed

lemma renderNotes_beyond:
  "length noteIDs < i + length notesInfo \<Longrightarrow> i \<le> length noteIDs \<Longrightarrow>
     renderNotes noteIDs i notesInfo results
       = Panic (''runtime error: index out of range ['' @ fmt_d (int (length noteIDs))
                  @ ''] with length '' @ fmt_d (int (length noteIDs)))"
proof (induction notesInfo arbitrary: i results)
  case Nil
  then show ?case by simp
next
  case (Cons noteInfo rest)
  show ?case
  proof (cases "i < length noteIDs")
    case True
    with Cons.prems have "length noteIDs < Suc i + length rest" and "Suc i \<le> length noteIDs"
      by simp_all
    with True Cons.IH [of "Suc i"] show ?thesis
      by (simp add: Let_def split: option.splits)
  next
    case False
    with Cons.prems have "i = length noteIDs" by simp
    then show ?thesis by simp
  qed
qed

lemma length_entries:
  "length ys \<le> length xs \<Longrightarrow>
     length (concat (map (\<lambda>(x, y). case f y of None \<Rightarrow> [] | Some v \<Rightarrow> [g x y v]) (zip xs ys)))
       = length (filter (\<lambda>y. f y \<noteq> None) ys)"
proof (induction ys arbitrary: xs)
  case Nil
  then show ?case by simp
next
  case (Cons y ys)
  then obtain x xs' where xs: "xs = x # xs'" by (cases xs) auto
  with Cons.prems have "length ys \<le> length xs'" by simp
  from Cons.IH [OF this] xs show ?case
    by (simp split: option.splits)
qed

lemma fieldValue_degrades:
  "as_object (index (map_of fields') name) = None \<Longrightarrow> fieldValue fields' name = []"
  "as_object (index (map_of fields') name) = Some field \<Longrightarrow>
     as_string (index (map_of field) ''value'') = None \<Longrightarrow> fieldValue fields' name = []"
  "as_object (index (map_of fields') name) = Some field \<Longrightarrow>
     as_string (index (map_of field) ''value'') = Some v \<Longrightarrow> fieldValue fields' name = v"
  by (simp_all add: fieldValue_def)

lemma handleSearchCards_rendered:
  assumes "as_string (index args ''query'') = Some query"
    and "fst (FindNotes e (ankiClient a) sent query) = Inr found"
    and "found \<noteq> []"
    and "noteIDs = (if int (length found) > limitOf args then take (nat (limitOf args)) found
                    else found)"
    and "fst (GetNotesInfo e (ankiClient a) (snd (FindNotes e (ankiClient a) sent query)) noteIDs)
           = Inr notesInfo"
  shows "fst (handleSearchCards e a sent args)
           = (case renderNotes noteIDs 0 notesInfo [] of
                Panic msg \<Rightarrow> Panic msg
              | Return results \<Rightarrow>
                  Return (textResult
                    (''Found '' @ fmt_d (int (length noteIDs)) @ '' cards (showing ''
                       @ fmt_d (int (length results)) @ ''):\<newline>\<newline>''
                       @ Join results ''\<newline>\<newline>---\<newline>\<newline>''), None))"
proof -
  obtain sent1 where f: "FindNotes e (ankiClient a) sent query = (Inr found, sent1)"
    using assms(2) by (cases "FindNotes e (ankiClient a) sent query") simp
  obtain sent2 where g: "GetNotesInfo e (ankiClient a) sent1 noteIDs = (Inr notesInfo, sent2)"
    using assms(5) f by (cases "GetNotesInfo e (ankiClient a) sent1 noteIDs") simp
  have "handleSearchCards e a sent args
          = (case GetNotesInfo e (ankiClient a) sent1 noteIDs of
               (Inl err, sent'') \<Rightarrow>
                 (Return (errorResult (''Failed to get note details: '' @ err), None), sent'')
             | (Inr notesInfo, sent'') \<Rightarrow>
                 (case renderNotes noteIDs 0 notesInfo [] of
                    Panic msg \<Rightarrow> (Panic msg, sent'')
                  | Return results \<Rightarrow>
                      (Return (textResult
                         (''Found '' @ fmt_d (int (length noteIDs)) @ '' cards (showing ''
                            @ fmt_d (int (length results)) @ ''):\<newline>\<newline>''
                            @ Join results ''\<newline>\<newline>---\<newline>\<newline>''), None),
                       sent'')))"
    unfolding handleSearchCards_def assms(4) Let_def
    using assms(1,3) f by simp
  then show ?thesis
    by (simp add: g split: go.splits)
qed

lemma handleSearchCards_panics:
  assumes "as_string (index args ''query'') = Some query"
    and "fst (FindNotes e (ankiClient a) sent query) = Inr found"
    and "found \<noteq> []"
    and "noteIDs = (if int (length found) > limitOf args then take (nat (limitOf args)) found
                    else found)"
    and "fst (GetNotesInfo e (ankiClient a) (snd (FindNotes e (ankiClient a) sent query)) noteIDs)
           = Inr notesInfo"
    and "length noteIDs < length notesInfo"
  shows "fst (handleSearchCards e a sent args)
           = Panic (''runtime error: index out of range ['' @ fmt_d (int (length noteIDs))
                      @ ''] with length '' @ fmt_d (int (length noteIDs)))"
  using handleSearchCards_rendered [OF assms(1-5)]
    renderNotes_beyond [of noteIDs 0 notesInfo "[]"] assms(6)
  by simp

subsection \<open>Which handlers always return\<close>

lemma handleCreateCard_returns:
  "\<exists>text. fst (handleCreateCard e a sent args) = Return (errorResult text, None)
         \<or> fst (handleCreateCard e a sent args) = Return (textResult text, None)"
  by (auto simp add: handleCreateCard_def Let_def split: option.splits sum.splits prod.splits)

lemma handleListDecks_returns:
  "\<exists>text. fst (handleListDecks e a sent args) = Return (errorResult text, None)
         \<or> fst (handleListDecks e a sent args) = Return (textResult text, None)"
  by (auto simp add: handleListDecks_def Let_def split: option.splits sum.splits prod.splits)

lemma handleCreateDeck_returns:
  "\<exists>text. fst (handleCreateDeck e a sent args) = Return (errorResult text, None)
         \<or> fst (handleCreateDeck e a sent args) = Return (textResult text, None)"
  by (auto simp add: handleCreateDeck_def Let_def split: option.splits sum.splits prod.splits)

lemma handleAddMedia_returns:
  "\<exists>text. fst (handleAddMedia e a sent args) = Return (errorResult text, None)
         \<or> fst (handleAddMedia e a sent args) = Return (textResult text, None)"
  by (auto simp add: handleAddMedia_def Let_def split: option.splits sum.splits prod.splits)

lemma handleCreateCardWithMedia_returns:
  "\<exists>text. fst (handleCreateCardWithMedia e a sent args) = Return (errorResult text, None)
         \<or> fst (handleCreateCardWithMedia e a sent args) = Return (textResult text, None)"
  by (auto simp add: handleCreateCardWithMedia_def Let_def
        split: option.splits sum.splits prod.splits)

lemma handleGetModels_returns:
  "\<exists>text. fst (handleGetModels e a sent args) = Return (errorResult text, None)
         \<or> fst (handleGetModels e a sent args) = Return (textResult text, None)"
  by (auto simp add: handleGetModels_def Let_def split: option.splits sum.splits prod.splits)

lemma handleGetModelFields_returns:
  "\<exists>text. fst (handleGetModelFields e a sent args) = Return (errorResult text, None)
         \<or> fst (handleGetModelFields e a sent args) = Return (textResult text, None)"
  by (auto simp add: handleGetModelFields_def Let_def split: option.splits sum.splits prod.splits)

lemma handleSync_returns:
  "\<exists>text. fst (handleSync e a sent args) = Return (errorResult text, None)
         \<or> fst (handleSync e a sent args) = Return (textResult text, None)"
  by (auto simp add: handleSync_def Let_def split: option.splits sum.splits prod.splits)

lemma handlePing_returns:
  "\<exists>text. fst (handlePing e a sent args) = Return (errorResult text, None)
         \<or> fst (handlePing e a sent args) = Return (textResult text, None)"
  by (auto simp add: handlePing_def Let_def split: option.splits sum.splits prod.splits)

lemma handleSearchCards_returns_or_panics:
  "\<exists>text. fst (handleSearchCards e a sent args) = Return (errorResult text, None)
         \<or> fst (handleSearchCards e a sent args) = Return (textResult text, None)
         \<or> fst (handleSearchCards e a sent args) = Panic text"
  by (auto simp add: handleSearchCards_def Let_def
        split: option.splits sum.splits prod.splits go.splits)

subsection \<open>Unfolding the examples\<close>

lemmas eval_defs =
  handleSearchCards_def index_def limitOf_def Atoi_def isDigit_def digitsValue_def
  FindNotes_def GetNotesInfo_def invoke_def exampleEnv_def ok_def noteObject_def
  renderNote_def fieldValue_def tagsOf_def textResult_def fmt_d_def decimal.simps digit_def
  int64_def exampleServer_def NewAnkiConnect_def ankiConnectVersion_def Let_def

subsection \<open>The note a card handler submits\<close>

lemma modelNameOf_given:
  "index args ''model_name'' = JStr model \<Longrightarrow> model \<noteq> [] \<Longrightarrow> modelNameOf args = model"
  by (simp add: modelNameOf_def)

lemma tagsOf_strings: "tagsOf (JArr (map JStr ts)) = ts"
  by (simp add: tagsOf_def stringElems_strings)

lemma mediaSlot_lenient:
  assumes "as_string (index args fk) = None \<or> index args fk = JStr []
           \<or> as_string (index args dk) = None \<or> index args dk = JStr []"
  shows "mediaSlot e args fk dk = Inr []"
  using assms by (auto simp add: mediaSlot_def split: option.splits)

lemma mediaSlot_attached:
  assumes "index args fk = JStr filename" and "filename \<noteq> []"
    and "index args dk = JStr mediaData" and "mediaData \<noteq> []"
    and "processMediaData e mediaData = Inr processedData"
  shows "mediaSlot e args fk dk
           = Inr [\<lparr>Path = [], Filename = filename, Fields_media = [], Data = processedData\<rparr>]"
  using assms by (simp add: mediaSlot_def)

lemma mediaSlot_failed:
  assumes "index args fk = JStr filename" and "filename \<noteq> []"
    and "index args dk = JStr mediaData" and "mediaData \<noteq> []"
    and "processMediaData e mediaData = Inl err"
  shows "mediaSlot e args fk dk = Inl err"
  using assms by (simp add: mediaSlot_def)

lemma handleCreateCard_note:
  assumes "as_string (index args ''deck_name'') = Some deckName"
    and "as_string (index args ''front'') = Some front"
    and "as_string (index args ''back'') = Some back"
  shows "handleCreateCard e a sent args
           = (case AddNote e (ankiClient a) sent
                     \<lparr>DeckName = deckName, ModelName = modelNameOf args,
                      Fields = [(''Front'', front), (''Back'', back)],
                      Tags = tagsOf (index args ''tags''), Audio = [], Picture = [], Video = [],
                      Options = [(''allowDuplicate'', JBool False)]\<rparr> of
                (Inl err, sent') \<Rightarrow>
                  (Return (errorResult (''Failed to create card: '' @ err), None), sent')
              | (Inr noteID, sent') \<Rightarrow>
                  (Return (textResult (''Successfully created card with ID: '' @ fmt_d noteID), None),
                   sent'))"
  using assms by (simp add: handleCreateCard_def Let_def)

lemma handleCreateCardWithMedia_note:
  assumes "as_string (index args ''deck_name'') = Some deckName"
    and "as_string (index args ''front'') = Some front"
    and "as_string (index args ''back'') = Some back"
    and "mediaSlot e args ''audio_filename'' ''audio_data'' = Inr audio"
    and "mediaSlot e args ''image_filename'' ''image_data'' = Inr picture"
  shows "handleCreateCardWithMedia e a sent args
           = (case AddNote e (ankiClient a) sent
                     \<lparr>DeckName = deckName, ModelName = modelNameOf args,
                      Fields = [(''Front'', front), (''Back'', back)],
                      Tags = tagsOf (index args ''tags''), Audio = audio, Picture = picture,
                      Video = [], Options = [(''allowDuplicate'', JBool False)]\<rparr> of
                (Inl err, sent') \<Rightarrow>
                  (Return (errorResult (''Failed to create card with media: '' @ err), None), sent')
              | (Inr noteID, sent') \<Rightarrow>
                  (Return (textResult (''Successfully created card with media, ID: '' @ fmt_d noteID),
                           None),
                   sent'))"
  using assms by (simp add: handleCreateCardWithMedia_def Let_def)


lemma snd_case_sent:
  "snd (case p of (Inl err, sent') \<Rightarrow> (f err, sent') | (Inr x, sent') \<Rightarrow> (g x, sent')) = snd p"
  by (cases p) (simp split: sum.splits)

subsection \<open>The parts of the leniency policy\<close>

lemma lenient_string_as_absent:
  "(as_string v = None \<or> v = JStr [] \<longrightarrow>
        modelNameOf (args(''model_name'' \<mapsto> v)) = ''Basic''
      \<and> modelNameOf (args(''model_name'' := None)) = ''Basic''
      \<and> handleCreateCard e a sent (args(''model_name'' \<mapsto> v))
          = handleCreateCard e a sent (args(''model_name'' := None))
      \<and> handleCreateCardWithMedia e a sent (args(''model_name'' \<mapsto> v))
          = handleCreateCardWithMedia e a sent (args(''model_name'' := None))
      \<and> limitOf (args(''limit'' \<mapsto> v)) = 10
      \<and> limitOf (args(''limit'' := None)) = 10
      \<and> handleSearchCards e a sent (args(''limit'' \<mapsto> v))
          = handleSearchCards e a sent (args(''limit'' := None))
      \<and> handleCreateCardWithMedia e a sent (args(''audio_filename'' \<mapsto> v))
          = handleCreateCardWithMedia e a sent (args(''audio_filename'' := None))
      \<and> handleCreateCardWithMedia e a sent (args(''audio_data'' \<mapsto> v))
          = handleCreateCardWithMedia e a sent (args(''audio_data'' := None))
      \<and> handleCreateCardWithMedia e a sent (args(''image_filename'' \<mapsto> v))
          = handleCreateCardWithMedia e a sent (args(''image_filename'' := None))
      \<and> handleCreateCardWithMedia e a sent (args(''image_data'' \<mapsto> v))
          = handleCreateCardWithMedia e a sent (args(''image_data'' := None)))"
proof (intro conjI impI)
  assume v: "as_string v = None \<or> v = JStr []"
  show "modelNameOf (args(''model_name'' \<mapsto> v)) = ''Basic''"
    using v by (intro modelNameOf_default) auto
  show "modelNameOf (args(''model_name'' := None)) = ''Basic''"
    by (intro modelNameOf_default) simp
  show "limitOf (args(''limit'' \<mapsto> v)) = 10"
    using v by (intro limitOf_default) auto
  show "limitOf (args(''limit'' := None)) = 10"
    by (intro limitOf_default) simp
  show "handleCreateCard e a sent (args(''model_name'' \<mapsto> v))
          = handleCreateCard e a sent (args(''model_name'' := None))"
    by (rule handleCreateCard_reads) (simp_all add: modelNameOf_lenient [OF v])
  show "handleCreateCardWithMedia e a sent (args(''model_name'' \<mapsto> v))
          = handleCreateCardWithMedia e a sent (args(''model_name'' := None))"
    by (rule handleCreateCardWithMedia_reads)
       (simp_all add: modelNameOf_lenient [OF v] mediaSlot_other)
  show "handleSearchCards e a sent (args(''limit'' \<mapsto> v))
          = handleSearchCards e a sent (args(''limit'' := None))"
    by (rule handleSearchCards_reads) (simp_all add: limitOf_lenient [OF v])
  show "handleCreateCardWithMedia e a sent (args(''audio_filename'' \<mapsto> v))
          = handleCreateCardWithMedia e a sent (args(''audio_filename'' := None))"
    by (rule handleCreateCardWithMedia_reads)
       (simp_all add: modelNameOf_other mediaSlot_lenient_filename [OF v] mediaSlot_other)
  show "handleCreateCardWithMedia e a sent (args(''audio_data'' \<mapsto> v))
          = handleCreateCardWithMedia e a sent (args(''audio_data'' := None))"
    by (rule handleCreateCardWithMedia_reads)
       (simp_all add: modelNameOf_other mediaSlot_lenient_data [OF v] mediaSlot_other)
  show "handleCreateCardWithMedia e a sent (args(''image_filename'' \<mapsto> v))
          = handleCreateCardWithMedia e a sent (args(''image_filename'' := None))"
    by (rule handleCreateCardWithMedia_reads)
       (simp_all add: modelNameOf_other mediaSlot_lenient_filename [OF v] mediaSlot_other)
  show "handleCreateCardWithMedia e a sent (args(''image_data'' \<mapsto> v))
          = handleCreateCardWithMedia e a sent (args(''image_data'' := None))"
    by (rule handleCreateCardWithMedia_reads)
       (simp_all add: modelNameOf_other mediaSlot_lenient_data [OF v] mediaSlot_other)
qed

lemma lenient_tags_as_absent:
  "(as_array w = None \<or> w = JArr [] \<longrightarrow>
        tagsOf (index (args(''tags'' \<mapsto> w)) ''tags'') = []
      \<and> tagsOf (index (args(''tags'' := None)) ''tags'') = []
      \<and> handleCreateCard e a sent (args(''tags'' \<mapsto> w))
          = handleCreateCard e a sent (args(''tags'' := None))
      \<and> handleCreateCardWithMedia e a sent (args(''tags'' \<mapsto> w))
          = handleCreateCardWithMedia e a sent (args(''tags'' := None)))"
proof (intro conjI impI)
  assume w: "as_array w = None \<or> w = JArr []"
  show t1: "tagsOf (index (args(''tags'' \<mapsto> w)) ''tags'') = []"
    using w by (simp add: tagsOf_default)
  show t2: "tagsOf (index (args(''tags'' := None)) ''tags'') = []"
    by (simp add: tagsOf_default)
  show "handleCreateCard e a sent (args(''tags'' \<mapsto> w))
          = handleCreateCard e a sent (args(''tags'' := None))"
    by (rule handleCreateCard_reads) (simp_all only: t1 t2, simp_all add: modelNameOf_other)
  show "handleCreateCardWithMedia e a sent (args(''tags'' \<mapsto> w))
          = handleCreateCardWithMedia e a sent (args(''tags'' := None))"
    by (rule handleCreateCardWithMedia_reads)
       (simp_all only: t1 t2, simp_all add: modelNameOf_other mediaSlot_other)
qed

lemma default_limit_requested:
  "((as_string (index args ''limit'') = None \<or> index args ''limit'' = JStr [])
        \<and> as_string (index args ''query'') = Some query
        \<and> fst (FindNotes e (ankiClient a) sent query) = Inr found \<and> found \<noteq> [] \<longrightarrow>
        snd (handleSearchCards e a sent args)
          = sent @ [\<lparr>Action = ''findNotes'', Version_req = Version (ankiClient a),
                     Params = Some (VStringMap [(''query'', query)])\<rparr>,
                    \<lparr>Action = ''notesInfo'', Version_req = Version (ankiClient a),
                     Params = Some (VMap [(''notes'', VInt64s (take 10 found))])\<rparr>])"
proof (intro conjI impI)
  assume h: "(as_string (index args ''limit'') = None \<or> index args ''limit'' = JStr [])
        \<and> as_string (index args ''query'') = Some query
        \<and> fst (FindNotes e (ankiClient a) sent query) = Inr found \<and> found \<noteq> []"
  then have l: "limitOf args = 10"
    by (intro limitOf_default) simp
  have "(if int (length found) > 10 then take (nat 10) found else found) = take 10 found"
    by simp
  with h l handleSearchCards_sent [of args query e a sent found]
  show "snd (handleSearchCards e a sent args)
          = sent @ [\<lparr>Action = ''findNotes'', Version_req = Version (ankiClient a),
                     Params = Some (VStringMap [(''query'', query)])\<rparr>,
                    \<lparr>Action = ''notesInfo'', Version_req = Version (ankiClient a),
                     Params = Some (VMap [(''notes'', VInt64s (take 10 found))])\<rparr>]"
    by simp
qed

lemma create_card_defaults:
  "(as_string (index args ''deck_name'') = Some deckName
      \<and> as_string (index args ''front'') = Some front
      \<and> as_string (index args ''back'') = Some back \<longrightarrow>
      (\<exists>note.
          handleCreateCard e a sent args
            = (case AddNote e (ankiClient a) sent note of
                 (Inl err, sent') \<Rightarrow>
                   (Return (errorResult (''Failed to create card: '' @ err), None), sent')
               | (Inr noteID, sent') \<Rightarrow>
                   (Return (textResult (''Successfully created card with ID: '' @ fmt_d noteID),
                            None), sent'))
          \<and> snd (handleCreateCard e a sent args)
              = sent @ [\<lparr>Action = ''addNote'', Version_req = Version (ankiClient a),
                         Params = Some (VMap [(''note'', VNote note)])\<rparr>]
          \<and> Audio note = [] \<and> Picture note = [] \<and> Video note = []
          \<and> DeckName note = deckName
          \<and> Fields note = [(''Front'', front), (''Back'', back)]
          \<and> Options note = [(''allowDuplicate'', JBool False)]
          \<and> (as_string (index args ''model_name'') = None \<or> index args ''model_name'' = JStr []
                \<longrightarrow> ModelName note = ''Basic'')
          \<and> (\<forall>model. index args ''model_name'' = JStr model \<and> model \<noteq> []
                \<longrightarrow> ModelName note = model)
          \<and> (as_array (index args ''tags'') = None \<or> index args ''tags'' = JArr []
                \<longrightarrow> Tags note = [])
          \<and> (\<forall>ts. index args ''tags'' = JArr (map JStr ts) \<longrightarrow> Tags note = ts)))"
proof (intro impI)
  assume required: "as_string (index args ''deck_name'') = Some deckName
      \<and> as_string (index args ''front'') = Some front
      \<and> as_string (index args ''back'') = Some back"
  let ?note = "\<lparr>DeckName = deckName, ModelName = modelNameOf args,
                 Fields = [(''Front'', front), (''Back'', back)],
                 Tags = tagsOf (index args ''tags''), Audio = [], Picture = [], Video = [],
                 Options = [(''allowDuplicate'', JBool False)]\<rparr>"
  have h: "handleCreateCard e a sent args
            = (case AddNote e (ankiClient a) sent ?note of
                 (Inl err, sent') \<Rightarrow>
                   (Return (errorResult (''Failed to create card: '' @ err), None), sent')
               | (Inr noteID, sent') \<Rightarrow>
                   (Return (textResult (''Successfully created card with ID: '' @ fmt_d noteID),
                            None), sent'))"
    using required by (intro handleCreateCard_note) simp_all
  have s: "snd (handleCreateCard e a sent args)
            = sent @ [\<lparr>Action = ''addNote'', Version_req = Version (ankiClient a),
                       Params = Some (VMap [(''note'', VNote ?note)])\<rparr>]"
    by (simp only: h snd_case_sent AddNote_sent)

  have model_default: "as_string (index args ''model_name'') = None \<or> index args ''model_name'' = JStr []
      \<longrightarrow> ModelName ?note = ''Basic''"
    by (simp add: modelNameOf_default)
  have model_given: "\<forall>model. index args ''model_name'' = JStr model \<and> model \<noteq> []
      \<longrightarrow> ModelName ?note = model"
    by (simp add: modelNameOf_given)
  have tags_default: "as_array (index args ''tags'') = None \<or> index args ''tags'' = JArr []
      \<longrightarrow> Tags ?note = []"
    by (simp add: tagsOf_default)
  have tags_given: "\<forall>ts. index args ''tags'' = JArr (map JStr ts) \<longrightarrow> Tags ?note = ts"
    by (simp add: tagsOf_strings)

  show "\<exists>note.
          handleCreateCard e a sent args
            = (case AddNote e (ankiClient a) sent note of
                 (Inl err, sent') \<Rightarrow>
                   (Return (errorResult (''Failed to create card: '' @ err), None), sent')
               | (Inr noteID, sent') \<Rightarrow>
                   (Return (textResult (''Successfully created card with ID: '' @ fmt_d noteID),
                            None), sent'))
          \<and> snd (handleCreateCard e a sent args)
              = sent @ [\<lparr>Action = ''addNote'', Version_req = Version (ankiClient a),
                         Params = Some (VMap [(''note'', VNote note)])\<rparr>]
          \<and> Audio note = [] \<and> Picture note = [] \<and> Video note = []
          \<and> DeckName note = deckName
          \<and> Fields note = [(''Front'', front), (''Back'', back)]
          \<and> Options note = [(''allowDuplicate'', JBool False)]
          \<and> (as_string (index args ''model_name'') = None \<or> index args ''model_name'' = JStr []
                \<longrightarrow> ModelName note = ''Basic'')
          \<and> (\<forall>model. index args ''model_name'' = JStr model \<and> model \<noteq> []
                \<longrightarrow> ModelName note = model)
          \<and> (as_array (index args ''tags'') = None \<or> index args ''tags'' = JArr []
                \<longrightarrow> Tags note = [])
          \<and> (\<forall>ts. index args ''tags'' = JArr (map JStr ts) \<longrightarrow> Tags note = ts)"
    using h s model_default model_given tags_default tags_given
    by (intro exI [of _ ?note]) simp
qed

lemma create_card_with_media_defaults:
  "(as_string (index args ''deck_name'') = Some deckName
      \<and> as_string (index args ''front'') = Some front
      \<and> as_string (index args ''back'') = Some back
      \<and> ((as_string (index args ''audio_filename'') = None \<or> index args ''audio_filename'' = JStr []
            \<or> as_string (index args ''audio_data'') = None \<or> index args ''audio_data'' = JStr [])
           \<and> audio = []
         \<or> index args ''audio_filename'' = JStr audioFilename \<and> audioFilename \<noteq> []
           \<and> index args ''audio_data'' = JStr audioData \<and> audioData \<noteq> []
           \<and> processMediaData e audioData = Inr audioPayload
           \<and> audio = [\<lparr>Path = [], Filename = audioFilename, Fields_media = [], Data = audioPayload\<rparr>])
      \<and> ((as_string (index args ''image_filename'') = None \<or> index args ''image_filename'' = JStr []
            \<or> as_string (index args ''image_data'') = None \<or> index args ''image_data'' = JStr [])
           \<and> picture = []
         \<or> index args ''image_filename'' = JStr imageFilename \<and> imageFilename \<noteq> []
           \<and> index args ''image_data'' = JStr imageData \<and> imageData \<noteq> []
           \<and> processMediaData e imageData = Inr imagePayload
           \<and> picture = [\<lparr>Path = [], Filename = imageFilename, Fields_media = [], Data = imagePayload\<rparr>]) \<longrightarrow>
      (\<exists>note.
          handleCreateCardWithMedia e a sent args
            = (case AddNote e (ankiClient a) sent note of
                 (Inl err, sent') \<Rightarrow>
                   (Return (errorResult (''Failed to create card with media: '' @ err), None),
                    sent')
               | (Inr noteID, sent') \<Rightarrow>
                   (Return (textResult (''Successfully created card with media, ID: ''
                                          @ fmt_d noteID), None), sent'))
          \<and> snd (handleCreateCardWithMedia e a sent args)
              = sent @ [\<lparr>Action = ''addNote'', Version_req = Version (ankiClient a),
                         Params = Some (VMap [(''note'', VNote note)])\<rparr>]
          \<and> Audio note = audio \<and> Picture note = picture \<and> Video note = []
          \<and> DeckName note = deckName
          \<and> Fields note = [(''Front'', front), (''Back'', back)]
          \<and> Options note = [(''allowDuplicate'', JBool False)]
          \<and> (as_string (index args ''model_name'') = None \<or> index args ''model_name'' = JStr []
                \<longrightarrow> ModelName note = ''Basic'')
          \<and> (\<forall>model. index args ''model_name'' = JStr model \<and> model \<noteq> []
                \<longrightarrow> ModelName note = model)
          \<and> (as_array (index args ''tags'') = None \<or> index args ''tags'' = JArr []
                \<longrightarrow> Tags note = [])
          \<and> (\<forall>ts. index args ''tags'' = JArr (map JStr ts) \<longrightarrow> Tags note = ts)))"
proof (intro impI)
  assume hyp: "as_string (index args ''deck_name'') = Some deckName
      \<and> as_string (index args ''front'') = Some front
      \<and> as_string (index args ''back'') = Some back
      \<and> ((as_string (index args ''audio_filename'') = None \<or> index args ''audio_filename'' = JStr []
            \<or> as_string (index args ''audio_data'') = None \<or> index args ''audio_data'' = JStr [])
           \<and> audio = []
         \<or> index args ''audio_filename'' = JStr audioFilename \<and> audioFilename \<noteq> []
           \<and> index args ''audio_data'' = JStr audioData \<and> audioData \<noteq> []
           \<and> processMediaData e audioData = Inr audioPayload
           \<and> audio = [\<lparr>Path = [], Filename = audioFilename, Fields_media = [], Data = audioPayload\<rparr>])
      \<and> ((as_string (index args ''image_filename'') = None \<or> index args ''image_filename'' = JStr []
            \<or> as_string (index args ''image_data'') = None \<or> index args ''image_data'' = JStr [])
           \<and> picture = []
         \<or> index args ''image_filename'' = JStr imageFilename \<and> imageFilename \<noteq> []
           \<and> index args ''image_data'' = JStr imageData \<and> imageData \<noteq> []
           \<and> processMediaData e imageData = Inr imagePayload
           \<and> picture = [\<lparr>Path = [], Filename = imageFilename, Fields_media = [], Data = imagePayload\<rparr>])"
  let ?note = "\<lparr>DeckName = deckName, ModelName = modelNameOf args,
                 Fields = [(''Front'', front), (''Back'', back)],
                 Tags = tagsOf (index args ''tags''), Audio = audio, Picture = picture, Video = [],
                 Options = [(''allowDuplicate'', JBool False)]\<rparr>"
  have audio: "mediaSlot e args ''audio_filename'' ''audio_data'' = Inr audio"
    using hyp mediaSlot_lenient [of args "''audio_filename''" "''audio_data''" e]
      mediaSlot_attached [of args "''audio_filename''" audioFilename "''audio_data''" audioData e
                             audioPayload]
    by blast
  have picture: "mediaSlot e args ''image_filename'' ''image_data'' = Inr picture"
    using hyp mediaSlot_lenient [of args "''image_filename''" "''image_data''" e]
      mediaSlot_attached [of args "''image_filename''" imageFilename "''image_data''" imageData e
                             imagePayload]
    by blast
  have h: "handleCreateCardWithMedia e a sent args
            = (case AddNote e (ankiClient a) sent ?note of
                 (Inl err, sent') \<Rightarrow>
                   (Return (errorResult (''Failed to create card with media: '' @ err), None),
                    sent')
               | (Inr noteID, sent') \<Rightarrow>
                   (Return (textResult (''Successfully created card with media, ID: ''
                                          @ fmt_d noteID), None), sent'))"
    using hyp audio picture by (intro handleCreateCardWithMedia_note) simp_all
  have s: "snd (handleCreateCardWithMedia e a sent args)
            = sent @ [\<lparr>Action = ''addNote'', Version_req = Version (ankiClient a),
                       Params = Some (VMap [(''note'', VNote ?note)])\<rparr>]"
    by (simp only: h snd_case_sent AddNote_sent)

  have model_default: "as_string (index args ''model_name'') = None \<or> index args ''model_name'' = JStr []
      \<longrightarrow> ModelName ?note = ''Basic''"
    by (simp add: modelNameOf_default)
  have model_given: "\<forall>model. index args ''model_name'' = JStr model \<and> model \<noteq> []
      \<longrightarrow> ModelName ?note = model"
    by (simp add: modelNameOf_given)
  have tags_default: "as_array (index args ''tags'') = None \<or> index args ''tags'' = JArr []
      \<longrightarrow> Tags ?note = []"
    by (simp add: tagsOf_default)
  have tags_given: "\<forall>ts. index args ''tags'' = JArr (map JStr ts) \<longrightarrow> Tags ?note = ts"
    by (simp add: tagsOf_strings)

  show "\<exists>note.
          handleCreateCardWithMedia e a sent args
            = (case AddNote e (ankiClient a) sent note of
                 (Inl err, sent') \<Rightarrow>
                   (Return (errorResult (''Failed to create card with media: '' @ err), None),
                    sent')
               | (Inr noteID, sent') \<Rightarrow>
                   (Return (textResult (''Successfully created card with media, ID: ''
                                          @ fmt_d noteID), None), sent'))
          \<and> snd (handleCreateCardWithMedia e a sent args)
              = sent @ [\<lparr>Action = ''addNote'', Version_req = Version (ankiClient a),
                         Params = Some (VMap [(''note'', VNote note)])\<rparr>]
          \<and> Audio note = audio \<and> Picture note = picture \<and> Video note = []
          \<and> DeckName note = deckName
          \<and> Fields note = [(''Front'', front), (''Back'', back)]
          \<and> Options note = [(''allowDuplicate'', JBool False)]
          \<and> (as_string (index args ''model_name'') = None \<or> index args ''model_name'' = JStr []
                \<longrightarrow> ModelName note = ''Basic'')
          \<and> (\<forall>model. index args ''model_name'' = JStr model \<and> model \<noteq> []
                \<longrightarrow> ModelName note = model)
          \<and> (as_array (index args ''tags'') = None \<or> index args ''tags'' = JArr []
                \<longrightarrow> Tags note = [])
          \<and> (\<forall>ts. index args ''tags'' = JArr (map JStr ts) \<longrightarrow> Tags note = ts)"
    using h s model_default model_given tags_default tags_given
    by (intro exI [of _ ?note]) simp
qed

lemma given_limit_requested:
  "(as_string (index args ''limit'') = Some limitStr \<and> Atoi limitStr = Some n \<and> 0 < n
        \<and> as_string (index args ''query'') = Some query
        \<and> fst (FindNotes e (ankiClient a) sent query) = Inr found \<and> found \<noteq> [] \<longrightarrow>
        snd (handleSearchCards e a sent args)
          = sent @ [\<lparr>Action = ''findNotes'', Version_req = Version (ankiClient a),
                     Params = Some (VStringMap [(''query'', query)])\<rparr>,
                    \<lparr>Action = ''notesInfo'', Version_req = Version (ankiClient a),
                     Params = Some (VMap [(''notes'', VInt64s (take (nat n) found))])\<rparr>])"
proof (intro impI)
  assume h: "as_string (index args ''limit'') = Some limitStr \<and> Atoi limitStr = Some n \<and> 0 < n
        \<and> as_string (index args ''query'') = Some query
        \<and> fst (FindNotes e (ankiClient a) sent query) = Inr found \<and> found \<noteq> []"
  then have l: "limitOf args = n"
    by (intro limitOf_positive [of args limitStr n]) simp_all
  have "(if int (length found) > n then take (nat n) found else found) = take (nat n) found"
    using h by simp
  with h l handleSearchCards_sent [of args query e a sent found]
  show "snd (handleSearchCards e a sent args)
          = sent @ [\<lparr>Action = ''findNotes'', Version_req = Version (ankiClient a),
                     Params = Some (VStringMap [(''query'', query)])\<rparr>,
                    \<lparr>Action = ''notesInfo'', Version_req = Version (ankiClient a),
                     Params = Some (VMap [(''notes'', VInt64s (take (nat n) found))])\<rparr>]"
    by simp
qed

lemma bad_limit_ignored:
  "(as_string (index args ''limit'') = Some limitStr
        \<and> (Atoi limitStr = None \<or> (\<exists>m. Atoi limitStr = Some m \<and> m \<le> 0))
        \<and> as_string (index args ''query'') = Some query
        \<and> fst (FindNotes e (ankiClient a) sent query) = Inr found \<and> found \<noteq> [] \<longrightarrow>
        snd (handleSearchCards e a sent args)
          = sent @ [\<lparr>Action = ''findNotes'', Version_req = Version (ankiClient a),
                     Params = Some (VStringMap [(''query'', query)])\<rparr>,
                    \<lparr>Action = ''notesInfo'', Version_req = Version (ankiClient a),
                     Params = Some (VMap [(''notes'', VInt64s (take 10 found))])\<rparr>])"
proof (intro impI)
  assume h: "as_string (index args ''limit'') = Some limitStr
        \<and> (Atoi limitStr = None \<or> (\<exists>m. Atoi limitStr = Some m \<and> m \<le> 0))
        \<and> as_string (index args ''query'') = Some query
        \<and> fst (FindNotes e (ankiClient a) sent query) = Inr found \<and> found \<noteq> []"
  then have l: "limitOf args = 10"
    using limitOf_unparseable [of args limitStr] limitOf_nonpositive [of args limitStr]
    by blast
  have "(if int (length found) > 10 then take (nat 10) found else found) = take 10 found"
    by simp
  with h l handleSearchCards_sent [of args query e a sent found]
  show "snd (handleSearchCards e a sent args)
          = sent @ [\<lparr>Action = ''findNotes'', Version_req = Version (ankiClient a),
                     Params = Some (VStringMap [(''query'', query)])\<rparr>,
                    \<lparr>Action = ''notesInfo'', Version_req = Version (ankiClient a),
                     Params = Some (VMap [(''notes'', VInt64s (take 10 found))])\<rparr>]"
    by simp
qed

section \<open>The claims\<close>

text \<open>
  C1. When the round trip of \<open>invoke\<close> yields a decoded envelope: a non-empty error field
  makes \<open>invoke\<close> fail with an error carrying that message, an empty one makes it return
  the envelope's result with a nil error, and an error is never returned together with a
  result.
\<close>

theorem invoke_envelope:
  assumes "Post e (URL ac) sent \<lparr>Action = action, Version_req = Version ac, Params = params\<rparr>
             = Envelope response"
  shows "(Error response \<noteq> [] \<longrightarrow>
            fst (invoke e ac sent action params)
              = (JNull, Some (''AnkiConnect error: '' @ Error response)))
       \<and> (Error response = [] \<longrightarrow>
            fst (invoke e ac sent action params) = (Result response, None))
       \<and> (snd (fst (invoke e ac sent action params)) \<noteq> None \<longrightarrow>
            fst (fst (invoke e ac sent action params)) = JNull)"
  using assms by (simp add: invoke_def Let_def)

theorem invoke_envelope_witness:
  "fst (invoke (exampleEnv [(''createDeck'', Envelope \<lparr>Result = JNull, Error = ''deck not found''\<rparr>)] [])
          NewAnkiConnect [] ''createDeck'' (Some (VStringMap [(''deck'', ''Spanish'')])))
     = (JNull, Some ''AnkiConnect error: deck not found'')
   \<and> fst (invoke (exampleEnv [(''deckNames'', ok (JArr [JStr ''Default'']))] [])
          NewAnkiConnect [] ''deckNames'' None)
     = (JArr [JStr ''Default''], None)"
  using invoke_envelope [of "exampleEnv [(''createDeck'', Envelope \<lparr>Result = JNull, Error = ''deck not found''\<rparr>)] []"
          NewAnkiConnect "[]" "''createDeck''" "Some (VStringMap [(''deck'', ''Spanish'')])"
          "\<lparr>Result = JNull, Error = ''deck not found''\<rparr>"]
        invoke_envelope [of "exampleEnv [(''deckNames'', ok (JArr [JStr ''Default'']))] []"
          NewAnkiConnect "[]" "''deckNames''" None "\<lparr>Result = JArr [JStr ''Default''], Error = []\<rparr>"]
  by (simp add: exampleEnv_def ok_def)

text \<open>
  C2 (as amended). When \<open>deck_name\<close>, \<open>front\<close> and \<open>back\<close> are strings, \<open>handleCreateCard\<close>
  sends exactly one request, \<open>addNote\<close>, whose note has the two fields \<open>Front\<close> and
  \<open>Back\<close> with the contents supplied and \<open>allowDuplicate\<close> false; its tags are the
  elements of the \<open>tags\<close> array that are strings, in their order (none when \<open>tags\<close> is not
  an array), which is the input list itself when all its elements are strings. When one
  of the three is missing or not a string, the handler returns the error result of that
  argument and sends nothing.
\<close>

theorem create_card_note:
  "(as_string (index args ''deck_name'') = Some deckName
      \<and> as_string (index args ''front'') = Some front
      \<and> as_string (index args ''back'') = Some back \<longrightarrow>
      (\<exists>note.
          snd (handleCreateCard e a sent args)
            = sent @ [\<lparr>Action = ''addNote'', Version_req = Version (ankiClient a),
                       Params = Some (VMap [(''note'', VNote note)])\<rparr>]
        \<and> DeckName note = deckName
        \<and> Fields note = [(''Front'', front), (''Back'', back)]
        \<and> Options note = [(''allowDuplicate'', JBool False)]
        \<and> map JStr (Tags note)
            = filter (\<lambda>v. as_string v \<noteq> None)
                (case as_array (index args ''tags'') of Some ts \<Rightarrow> ts | None \<Rightarrow> [])
        \<and> (\<forall>ts. index args ''tags'' = JArr (map JStr ts) \<longrightarrow> Tags note = ts)))
   \<and> (as_string (index args ''deck_name'') = None
        \<or> as_string (index args ''front'') = None
        \<or> as_string (index args ''back'') = None \<longrightarrow>
        snd (handleCreateCard e a sent args) = sent
      \<and> (\<exists>name. (name = ''deck_name'' \<or> name = ''front'' \<or> name = ''back'')
            \<and> as_string (index args name) = None
            \<and> fst (handleCreateCard e a sent args)
                = Return (\<lparr>Content = [\<lparr>Type = ''text'',
                                         Text = ''Error: '' @ name
                                                  @ '' is required and must be a string''\<rparr>],
                            IsError = True\<rparr>, None)))"
proof (intro conjI impI)
  assume present: "as_string (index args ''deck_name'') = Some deckName
      \<and> as_string (index args ''front'') = Some front
      \<and> as_string (index args ''back'') = Some back"
  define nt where "nt = \<lparr>DeckName = deckName, ModelName = modelNameOf args,
      Fields = [(''Front'', front), (''Back'', back)], Tags = tagsOf (index args ''tags''),
      Audio = [], Picture = [], Video = [], Options = [(''allowDuplicate'', JBool False)]\<rparr>"
  have "snd (handleCreateCard e a sent args) = snd (AddNote e (ankiClient a) sent nt)"
    using present
    by (cases "AddNote e (ankiClient a) sent nt")
       (auto simp add: handleCreateCard_def nt_def split: sum.splits)
  then have sent: "snd (handleCreateCard e a sent args)
      = sent @ [\<lparr>Action = ''addNote'', Version_req = Version (ankiClient a),
                 Params = Some (VMap [(''note'', VNote nt)])\<rparr>]"
    by (simp add: AddNote_sent)
  have tags: "map JStr (Tags nt)
      = filter (\<lambda>v. as_string v \<noteq> None)
          (case as_array (index args ''tags'') of Some ts \<Rightarrow> ts | None \<Rightarrow> [])"
    by (simp add: nt_def tagsOf_filter)
  have all_strings: "\<forall>ts. index args ''tags'' = JArr (map JStr ts) \<longrightarrow> Tags nt = ts"
    by (simp add: nt_def tagsOf_def stringElems_strings)
  show "\<exists>note.
          snd (handleCreateCard e a sent args)
            = sent @ [\<lparr>Action = ''addNote'', Version_req = Version (ankiClient a),
                       Params = Some (VMap [(''note'', VNote note)])\<rparr>]
        \<and> DeckName note = deckName
        \<and> Fields note = [(''Front'', front), (''Back'', back)]
        \<and> Options note = [(''allowDuplicate'', JBool False)]
        \<and> map JStr (Tags note)
            = filter (\<lambda>v. as_string v \<noteq> None)
                (case as_array (index args ''tags'') of Some ts \<Rightarrow> ts | None \<Rightarrow> [])
        \<and> (\<forall>ts. index args ''tags'' = JArr (map JStr ts) \<longrightarrow> Tags note = ts)"
    using sent tags all_strings by (intro exI [of _ nt]) (simp add: nt_def)
next
  assume missing: "as_string (index args ''deck_name'') = None
        \<or> as_string (index args ''front'') = None
        \<or> as_string (index args ''back'') = None"
  then show "snd (handleCreateCard e a sent args) = sent"
    by (auto simp add: handleCreateCard_def split: option.splits)
next
  assume missing: "as_string (index args ''deck_name'') = None
        \<or> as_string (index args ''front'') = None
        \<or> as_string (index args ''back'') = None"
  show "\<exists>name. (name = ''deck_name'' \<or> name = ''front'' \<or> name = ''back'')
            \<and> as_string (index args name) = None
            \<and> fst (handleCreateCard e a sent args)
                = Return (\<lparr>Content = [\<lparr>Type = ''text'',
                                         Text = ''Error: '' @ name
                                                  @ '' is required and must be a string''\<rparr>],
                            IsError = True\<rparr>, None)"
  proof (cases "as_string (index args ''deck_name'')")
    case None
    then show ?thesis
      by (intro exI [of _ "''deck_name''"]) (simp add: handleCreateCard_def errorResult_def)
  next
    case deck: (Some d)
    show ?thesis
    proof (cases "as_string (index args ''front'')")
      case None
      with deck show ?thesis
        by (intro exI [of _ "''front''"]) (simp add: handleCreateCard_def errorResult_def)
    next
      case (Some f)
      with deck missing have "as_string (index args ''back'') = None" by simp
      with deck Some show ?thesis
        by (intro exI [of _ "''back''"]) (simp add: handleCreateCard_def errorResult_def)
    qed
  qed
qed

theorem create_card_note_witness:
  "as_string (index (map_of [(''deck_name'', JStr ''Spanish''), (''front'', JStr ''hola''),
                             (''back'', JStr ''hello''),
                             (''tags'', JArr [JStr ''greetings'', JStr ''basic''])]) ''deck_name'')
     = Some ''Spanish''
   \<and> snd (handleCreateCard (exampleEnv [(''addNote'', ok (JNum 1496198395707))] []) exampleServer []
          (map_of [(''deck_name'', JStr ''Spanish''), (''front'', JStr ''hola''),
                   (''back'', JStr ''hello''),
                   (''tags'', JArr [JStr ''greetings'', JStr ''basic''])]))
     = [\<lparr>Action = ''addNote'', Version_req = 6,
          Params = Some (VMap [(''note'', VNote
            \<lparr>DeckName = ''Spanish'', ModelName = ''Basic'',
             Fields = [(''Front'', ''hola''), (''Back'', ''hello'')],
             Tags = [''greetings'', ''basic''], Audio = [], Picture = [], Video = [],
             Options = [(''allowDuplicate'', JBool False)]\<rparr>)])\<rparr>]
   \<and> as_string (index (map_of [(''deck_name'', JStr ''Spanish''), (''back'', JStr ''hello'')]) ''front'')
     = None
   \<and> handleCreateCard (exampleEnv [(''addNote'', ok (JNum 1496198395707))] []) exampleServer []
          (map_of [(''deck_name'', JStr ''Spanish''), (''back'', JStr ''hello'')])
     = (Return (\<lparr>Content = [\<lparr>Type = ''text'',
                               Text = ''Error: front is required and must be a string''\<rparr>],
                  IsError = True\<rparr>, None), [])"
  using create_card_note [of "map_of [(''deck_name'', JStr ''Spanish''), (''front'', JStr ''hola''),
                   (''back'', JStr ''hello''),
                   (''tags'', JArr [JStr ''greetings'', JStr ''basic''])]"
          "''Spanish''" "''hola''" "''hello''"
          "exampleEnv [(''addNote'', ok (JNum 1496198395707))] []" exampleServer "[]"]
        create_card_note [of "map_of [(''deck_name'', JStr ''Spanish''), (''back'', JStr ''hello'')]"
          "''Spanish''" "''hola''" "''hello''"
          "exampleEnv [(''addNote'', ok (JNum 1496198395707))] []" exampleServer "[]"]
  by (simp add: handleCreateCard_def index_def modelNameOf_def tagsOf_def AddNote_def invoke_def
        exampleEnv_def ok_def exampleServer_def NewAnkiConnect_def ankiConnectVersion_def
        errorResult_def Let_def)

theorem create_card_tags_counterexample:
  "index (map_of [(''deck_name'', JStr ''Spanish''), (''front'', JStr ''hola''),
                  (''back'', JStr ''hello''),
                  (''tags'', JArr [JStr ''greetings'', JNum 7, JStr ''basic''])]) ''tags''
     = JArr [JStr ''greetings'', JNum 7, JStr ''basic'']
   \<and> snd (handleCreateCard (exampleEnv [(''addNote'', ok (JNum 1496198395707))] []) exampleServer []
          (map_of [(''deck_name'', JStr ''Spanish''), (''front'', JStr ''hola''),
                   (''back'', JStr ''hello''),
                   (''tags'', JArr [JStr ''greetings'', JNum 7, JStr ''basic''])]))
     = [\<lparr>Action = ''addNote'', Version_req = 6,
          Params = Some (VMap [(''note'', VNote
            \<lparr>DeckName = ''Spanish'', ModelName = ''Basic'',
             Fields = [(''Front'', ''hola''), (''Back'', ''hello'')],
             Tags = [''greetings'', ''basic''], Audio = [], Picture = [], Video = [],
             Options = [(''allowDuplicate'', JBool False)]\<rparr>)])\<rparr>]
   \<and> map JStr [''greetings'', ''basic''] \<noteq> [JStr ''greetings'', JNum 7, JStr ''basic'']"
  by (simp add: handleCreateCard_def index_def modelNameOf_def tagsOf_def AddNote_def invoke_def
        exampleEnv_def ok_def exampleServer_def NewAnkiConnect_def ankiConnectVersion_def
        Let_def)

text \<open>
  C3. The claim fails on the code at the count reported as found. With the limit \<open>2\<close> and
  three identifiers returned by \<open>findNotes\<close>, two notes are rendered, and the text reports
  \<open>Found 2 cards\<close>: the length of the truncated slice, not the three matches.
\<close>

theorem search_cards_found_count_truncated:
  "fst (FindNotes (exampleEnv [(''findNotes'', ok (JArr [JNum 101, JNum 102, JNum 103])),
                               (''notesInfo'', ok (JArr [noteObject 101 ''hola'' ''hello'' [],
                                                          noteObject 102 ''adios'' ''goodbye'' []]))] [])
          (ankiClient exampleServer) [] ''deck:Spanish'')
     = Inr [101, 102, 103]
   \<and> limitOf (map_of [(''query'', JStr ''deck:Spanish''), (''limit'', JStr ''2'')]) = 2
   \<and> fst (handleSearchCards
          (exampleEnv [(''findNotes'', ok (JArr [JNum 101, JNum 102, JNum 103])),
                       (''notesInfo'', ok (JArr [noteObject 101 ''hola'' ''hello'' [],
                                                  noteObject 102 ''adios'' ''goodbye'' []]))] [])
          exampleServer [] (map_of [(''query'', JStr ''deck:Spanish''), (''limit'', JStr ''2'')]))
     = Return (\<lparr>Content = [\<lparr>Type = ''text'',
          Text = ''Found 2 cards (showing 2):\<newline>\<newline>ID: 101\<newline>Front: hola\<newline>Back: hello\<newline>\<newline>---\<newline>\<newline>ID: 102\<newline>Front: adios\<newline>Back: goodbye''\<rparr>],
        IsError = False\<rparr>, None)"
  by (simp add: eval_defs)

text \<open>
  C4 (as amended). For an input that starts with \<open>data:\<close>, \<open>processMediaData\<close> returns
  the portion after the comma when the input holds exactly one comma, and fails with the
  format error when the number of commas is anything else: none, or two or more.
\<close>

theorem data_uri_payload:
  assumes "HasPrefix data ''data:''"
  shows "processMediaData e data =
           (if count_list data CHR '','' = 1
            then Inr (tl (dropWhile (\<lambda>c. c \<noteq> CHR '','') data))
            else Inl ''invalid data URI format'')"
proof (cases "count_list data CHR '','' = 1")
  case True
  with assms show ?thesis
    by (simp add: processMediaData_def Let_def Split_one_sep)
next
  case False
  with assms show ?thesis
    by (simp add: processMediaData_def Let_def length_Split)
qed

theorem data_uri_payload_witness:
  "HasPrefix ''data:image/png;base64,AAAA'' ''data:''
   \<and> processMediaData (exampleEnv [] []) ''data:image/png;base64,AAAA'' = Inr ''AAAA''
   \<and> processMediaData (exampleEnv [] []) ''data:image/png;base64'' = Inl ''invalid data URI format''"
proof -
  have h1: "HasPrefix ''data:image/png;base64,AAAA'' ''data:''"
    by (simp add: HasPrefix_def)
  have h2: "HasPrefix ''data:image/png;base64'' ''data:''"
    by (simp add: HasPrefix_def)
  show ?thesis
    using h1 data_uri_payload [OF h1, of "exampleEnv [] []"]
      data_uri_payload [OF h2, of "exampleEnv [] []"]
    by simp
qed

theorem data_uri_two_commas_counterexample:
  "HasPrefix ''data:text/plain;charset=utf-8,a,b'' ''data:''
   \<and> Contains ''data:text/plain;charset=utf-8,a,b'' '',''
   \<and> processMediaData (exampleEnv [] []) ''data:text/plain;charset=utf-8,a,b''
       = Inl ''invalid data URI format''"
  by (simp add: HasPrefix_def processMediaData_def Let_def)

text \<open>
  C5. The claim fails on the code in \<open>handleSearchCards\<close>. When \<open>notesInfo\<close> answers with
  more note objects than identifiers were asked for, the loop reads \<open>noteIDs[i]\<close> beyond
  the end of the slice and the handler panics instead of returning a result.
\<close>

theorem search_cards_index_panic:
  "handleSearchCards
      (exampleEnv [(''findNotes'', ok (JArr [JNum 101])),
                   (''notesInfo'', ok (JArr [noteObject 101 ''hola'' ''hello'' [],
                                              noteObject 102 ''adios'' ''goodbye'' []]))] [])
      exampleServer [] (map_of [(''query'', JStr ''deck:Spanish'')])
     = (Panic ''runtime error: index out of range [1] with length 1'',
        [\<lparr>Action = ''findNotes'', Version_req = 6,
           Params = Some (VStringMap [(''query'', ''deck:Spanish'')])\<rparr>,
         \<lparr>Action = ''notesInfo'', Version_req = 6,
           Params = Some (VMap [(''notes'', VInt64s [101])])\<rparr>])"
  by (simp add: eval_defs)

text \<open>
  C6 (as amended). When the search reaches rendering and \<open>notesInfo\<close> answers with no more
  note objects than identifiers were asked for, the call succeeds: a note object whose
  \<open>fields\<close> member is an object is rendered, one whose \<open>fields\<close> member is missing or not
  an object is skipped, so the number shown is the number of note objects with a \<open>fields\<close>
  object. Inside a rendered note, a \<open>Front\<close> or \<open>Back\<close> that is missing, not an object or
  without a string \<open>value\<close> becomes the empty string, and \<open>tags\<close> that are not an array
  become no tags.
\<close>

theorem search_cards_rendering:
  assumes "as_string (index args ''query'') = Some query"
    and "fst (FindNotes e (ankiClient a) sent query) = Inr found"
    and "found \<noteq> []"
    and "noteIDs = (if int (length found) > limitOf args then take (nat (limitOf args)) found
                    else found)"
    and "fst (GetNotesInfo e (ankiClient a) (snd (FindNotes e (ankiClient a) sent query)) noteIDs)
           = Inr notesInfo"
    and "length notesInfo \<le> length noteIDs"
  shows "fst (handleSearchCards e a sent args)
           = Return (\<lparr>Content = [\<lparr>Type = ''text'',
                Text = ''Found '' @ fmt_d (int (length noteIDs)) @ '' cards (showing ''
                  @ fmt_d (int (length (filter
                       (\<lambda>noteInfo. as_object (index (map_of noteInfo) ''fields'') \<noteq> None)
                       notesInfo)))
                  @ ''):\<newline>\<newline>''
                  @ Join (concat (map (\<lambda>(noteID, noteInfo).
                             case as_object (index (map_of noteInfo) ''fields'') of
                               None \<Rightarrow> []
                             | Some fields' \<Rightarrow> [renderNote noteID noteInfo fields'])
                           (zip noteIDs notesInfo)))
                      ''\<newline>\<newline>---\<newline>\<newline>''\<rparr>],
              IsError = False\<rparr>, None)
       \<and> (\<forall>noteID noteInfo fields'.
            renderNote noteID noteInfo fields'
              = ''ID: '' @ fmt_d noteID @ ''\<newline>Front: '' @ fieldValue fields' ''Front''
                  @ ''\<newline>Back: '' @ fieldValue fields' ''Back''
                  @ (if tagsOf (index (map_of noteInfo) ''tags'') = [] then []
                     else ''\<newline>Tags: '' @ Join (tagsOf (index (map_of noteInfo) ''tags'')) '', ''))
       \<and> (\<forall>fields' name.
            as_object (index (map_of fields') name) = None \<longrightarrow> fieldValue fields' name = [])
       \<and> (\<forall>fields' name field.
            as_object (index (map_of fields') name) = Some field
              \<and> as_string (index (map_of field) ''value'') = None \<longrightarrow>
            fieldValue fields' name = [])
       \<and> (\<forall>v. as_array v = None \<longrightarrow> tagsOf v = [])"
proof (intro conjI allI impI)
  let ?entries = "concat (map (\<lambda>(noteID, noteInfo).
                      case as_object (index (map_of noteInfo) ''fields'') of
                        None \<Rightarrow> []
                      | Some fields' \<Rightarrow> [renderNote noteID noteInfo fields'])
                    (zip noteIDs notesInfo))"
  have r: "renderNotes noteIDs 0 notesInfo [] = Return ?entries"
    using renderNotes_within [of 0 notesInfo noteIDs "[]"] assms(6) by simp
  have t: "fst (handleSearchCards e a sent args)
             = Return (textResult
                 (''Found '' @ fmt_d (int (length noteIDs)) @ '' cards (showing ''
                    @ fmt_d (int (length ?entries)) @ ''):\<newline>\<newline>''
                    @ Join ?entries ''\<newline>\<newline>---\<newline>\<newline>''), None)"
    using handleSearchCards_rendered [OF assms(1-5)] by (simp only: r go.case)
  have len: "length ?entries
               = length (filter (\<lambda>noteInfo. as_object (index (map_of noteInfo) ''fields'') \<noteq> None)
                           notesInfo)"
    by (rule length_entries
          [where f = "\<lambda>noteInfo. as_object (index (map_of noteInfo) ''fields'')"
             and g = renderNote, OF assms(6)])
  show "fst (handleSearchCards e a sent args)
           = Return (\<lparr>Content = [\<lparr>Type = ''text'',
                Text = ''Found '' @ fmt_d (int (length noteIDs)) @ '' cards (showing ''
                  @ fmt_d (int (length (filter
                       (\<lambda>noteInfo. as_object (index (map_of noteInfo) ''fields'') \<noteq> None)
                       notesInfo)))
                  @ ''):\<newline>\<newline>''
                  @ Join (concat (map (\<lambda>(noteID, noteInfo).
                             case as_object (index (map_of noteInfo) ''fields'') of
                               None \<Rightarrow> []
                             | Some fields' \<Rightarrow> [renderNote noteID noteInfo fields'])
                           (zip noteIDs notesInfo)))
                      ''\<newline>\<newline>---\<newline>\<newline>''\<rparr>],
              IsError = False\<rparr>, None)"
    by (simp only: t len textResult_def)
next
  fix noteID noteInfo fields'
  show "renderNote noteID noteInfo fields'
          = ''ID: '' @ fmt_d noteID @ ''\<newline>Front: '' @ fieldValue fields' ''Front''
              @ ''\<newline>Back: '' @ fieldValue fields' ''Back''
              @ (if tagsOf (index (map_of noteInfo) ''tags'') = [] then []
                 else ''\<newline>Tags: '' @ Join (tagsOf (index (map_of noteInfo) ''tags'')) '', '')"
    by (simp add: renderNote_def Let_def)
next
  fix fields' name
  assume "as_object (index (map_of fields') name) = None"
  then show "fieldValue fields' name = []" by (rule fieldValue_degrades(1))
next
  fix fields' name field
  assume "as_object (index (map_of fields') name) = Some field
            \<and> as_string (index (map_of field) ''value'') = None"
  then show "fieldValue fields' name = []" by (simp add: fieldValue_degrades(2))
next
  fix v
  assume "as_array v = None"
  then show "tagsOf v = []" by (simp add: tagsOf_default)
qed

theorem search_cards_rendering_witness:
  "fst (handleSearchCards
          (exampleEnv [(''findNotes'', ok (JArr [JNum 101, JNum 102, JNum 103])),
                       (''notesInfo'', ok (JArr [noteObject 101 ''hola'' ''hello'' [''greetings'', ''basic''],
                                                  JObj [(''noteId'', JNum 102),
                                                        (''fields'', JObj [(''Front'', JStr ''adios'')]),
                                                        (''tags'', JNull)]]))] [])
          exampleServer [] (map_of [(''query'', JStr ''deck:Spanish''), (''limit'', JStr ''2'')]))
     = Return (\<lparr>Content = [\<lparr>Type = ''text'',
          Text = ''Found 2 cards (showing 2):\<newline>\<newline>ID: 101\<newline>Front: hola\<newline>Back: hello\<newline>Tags: greetings, basic\<newline>\<newline>---\<newline>\<newline>ID: 102\<newline>Front: \<newline>Back: ''\<rparr>],
        IsError = False\<rparr>, None)"
proof -
  let ?e = "exampleEnv [(''findNotes'', ok (JArr [JNum 101, JNum 102, JNum 103])),
                       (''notesInfo'', ok (JArr [noteObject 101 ''hola'' ''hello'' [''greetings'', ''basic''],
                                                  JObj [(''noteId'', JNum 102),
                                                        (''fields'', JObj [(''Front'', JStr ''adios'')]),
                                                        (''tags'', JNull)]]))] []"
  let ?args = "map_of [(''query'', JStr ''deck:Spanish''), (''limit'', JStr ''2'')]"
  let ?notesInfo = "[[(''noteId'', JNum 101), (''modelName'', JStr ''Basic''),
                      (''tags'', JArr [JStr ''greetings'', JStr ''basic'']),
                      (''fields'', JObj [(''Front'', JObj [(''value'', JStr ''hola''), (''order'', JNum 0)]),
                                         (''Back'', JObj [(''value'', JStr ''hello''), (''order'', JNum 1)])])],
                     [(''noteId'', JNum 102), (''fields'', JObj [(''Front'', JStr ''adios'')]),
                      (''tags'', JNull)]]"
  have query: "as_string (index ?args ''query'') = Some ''deck:Spanish''"
    by (simp add: index_def)
  have found: "fst (FindNotes ?e (ankiClient exampleServer) [] ''deck:Spanish'') = Inr [101, 102, 103]"
    by (simp add: FindNotes_def invoke_def exampleEnv_def ok_def int64_def)
  have nonempty: "[101, 102, 103 :: int] \<noteq> []"
    by simp
  have ids: "[101, 102 :: int]
               = (if int (length [101, 102, 103 :: int]) > limitOf ?args
                  then take (nat (limitOf ?args)) [101, 102, 103] else [101, 102, 103])"
    by (simp add: limitOf_def index_def Atoi_def isDigit_def digitsValue_def)
  have info: "fst (GetNotesInfo ?e (ankiClient exampleServer)
                     (snd (FindNotes ?e (ankiClient exampleServer) [] ''deck:Spanish'')) [101, 102])
                = Inr ?notesInfo"
    by (simp add: GetNotesInfo_def invoke_def exampleEnv_def ok_def noteObject_def)
  have len: "length ?notesInfo \<le> length [101, 102 :: int]"
    by simp
  from search_cards_rendering [OF query found nonempty ids info len]
  show ?thesis
    by (simp add: index_def renderNote_def fieldValue_def tagsOf_def fmt_d_def decimal.simps
          digit_def Let_def)
qed

theorem search_cards_skips_note_counterexample:
  "fst (GetNotesInfo (exampleEnv [(''findNotes'', ok (JArr [JNum 101])),
                                  (''notesInfo'', ok (JArr [JObj [(''noteId'', JNum 101),
                                                                 (''tags'', JArr [JStr ''basic''])]]))] [])
          (ankiClient exampleServer) [] [101])
     = Inr [[(''noteId'', JNum 101), (''tags'', JArr [JStr ''basic''])]]
   \<and> fst (handleSearchCards
          (exampleEnv [(''findNotes'', ok (JArr [JNum 101])),
                       (''notesInfo'', ok (JArr [JObj [(''noteId'', JNum 101),
                                                      (''tags'', JArr [JStr ''basic''])]]))] [])
          exampleServer [] (map_of [(''query'', JStr ''deck:Spanish'')]))
     = Return (\<lparr>Content = [\<lparr>Type = ''text'', Text = ''Found 1 cards (showing 0):\<newline>\<newline>''\<rparr>],
                 IsError = False\<rparr>, None)"
  by (simp add: eval_defs)

text \<open>
  C7. When \<open>invoke\<close> of \<open>deckNames\<close> returns a list of strings, \<open>handleListDecks\<close>
  renders \<open>Available decks (n):\<close>, with \<open>n\<close> the length of the list, followed by a newline
  and the names joined by newlines in their order. For the list \<open>Default\<close>, \<open>Spanish\<close>
  the text is the one of the witness.
\<close>

theorem list_decks_round_trip:
  assumes "fst (invoke e (ankiClient a) sent ''deckNames'' None) = (JArr (map JStr names), None)"
  shows "fst (handleListDecks e a sent args)
           = Return (\<lparr>Content = [\<lparr>Type = ''text'',
                                  Text = ''Available decks ('' @ fmt_d (int (length names))
                                           @ ''):\<newline>'' @ Join names ''\<newline>''\<rparr>],
                       IsError = False\<rparr>, None)"
  using GetDeckNames_strings [OF assms]
  by (cases "GetDeckNames e (ankiClient a) sent")
     (simp add: handleListDecks_def textResult_def)

theorem list_decks_round_trip_witness:
  "fst (invoke (exampleEnv [(''deckNames'', ok (JArr [JStr ''Default'', JStr ''Spanish'']))] [])
          (ankiClient exampleServer) [] ''deckNames'' None)
     = (JArr (map JStr [''Default'', ''Spanish'']), None)
   \<and> fst (handleListDecks (exampleEnv [(''deckNames'', ok (JArr [JStr ''Default'', JStr ''Spanish'']))] [])
          exampleServer [] Map.empty)
     = Return (\<lparr>Content = [\<lparr>Type = ''text'',
                              Text = ''Available decks (2):\<newline>Default\<newline>Spanish''\<rparr>],
                 IsError = False\<rparr>, None)"
proof -
  have h: "fst (invoke (exampleEnv [(''deckNames'', ok (JArr [JStr ''Default'', JStr ''Spanish'']))] [])
                  (ankiClient exampleServer) [] ''deckNames'' None)
             = (JArr (map JStr [''Default'', ''Spanish'']), None)"
    by (simp add: invoke_def exampleEnv_def ok_def)
  show ?thesis
    using h list_decks_round_trip [OF h, of Map.empty]
    by (simp add: fmt_d_def decimal.simps digit_def)
qed

text \<open>
  C8. An input that does not start with \<open>data:\<close> and is not the path of a file (it holds
  no path separator, or it holds \<open>base64,\<close>, or nothing exists at that path) is returned
  unchanged, so resolving the result again gives the same result.
\<close>

theorem pass_through_idempotent:
  assumes "\<not> HasPrefix data ''data:''"
    and "(\<not> Contains data ''/'' \<and> \<not> Contains data [CHR 0x5C])
         \<or> Contains data ''base64,'' \<or> \<not> Stat e data"
  shows "processMediaData e data = Inr data
       \<and> (case processMediaData e data of
            Inl err \<Rightarrow> Inl err
          | Inr resolved \<Rightarrow> processMediaData e resolved) = processMediaData e data"
proof -
  have "processMediaData e data = Inr data"
    using assms by (auto simp add: processMediaData_def)
  then show ?thesis by simp
qed

theorem pass_through_idempotent_witness:
  "processMediaData (exampleEnv [] [(''/tmp/a.png'', ''PNG'')]) ''/9j/4AAQSkZJRg=='' = Inr ''/9j/4AAQSkZJRg==''
   \<and> processMediaData (exampleEnv [] [(''/tmp/a.png'', ''PNG'')]) ''QUJD'' = Inr ''QUJD''"
proof -
  have p1: "\<not> HasPrefix ''/9j/4AAQSkZJRg=='' ''data:''" and p2: "\<not> HasPrefix ''QUJD'' ''data:''"
    by (simp_all add: HasPrefix_def)
  have q1: "(\<not> Contains ''/9j/4AAQSkZJRg=='' ''/'' \<and> \<not> Contains ''/9j/4AAQSkZJRg=='' [CHR 0x5C])
            \<or> Contains ''/9j/4AAQSkZJRg=='' ''base64,''
            \<or> \<not> Stat (exampleEnv [] [(''/tmp/a.png'', ''PNG'')]) ''/9j/4AAQSkZJRg==''"
    by (simp add: exampleEnv_def)
  have q2: "(\<not> Contains ''QUJD'' ''/'' \<and> \<not> Contains ''QUJD'' [CHR 0x5C])
            \<or> Contains ''QUJD'' ''base64,''
            \<or> \<not> Stat (exampleEnv [] [(''/tmp/a.png'', ''PNG'')]) ''QUJD''"
    by simp
  show ?thesis
    using pass_through_idempotent [OF p1 q1] pass_through_idempotent [OF p2 q2]
    by simp
qed

text \<open>
  C9. An optional argument that is absent, empty or of the wrong type falls back to its
  default, and the default is what the handler acts on. With the required arguments
  present, the note that \<open>handleCreateCard\<close> and \<open>handleCreateCardWithMedia\<close> submit has the
  model name \<open>Basic\<close> unless \<open>model_name\<close> is a non-empty string (then that string), no
  tags unless \<open>tags\<close> is an array (then its strings), and nothing attached in a media slot
  unless its filename and data are both non-empty strings (then the file with the resolved
  data); the handler's outcome is that of \<open>AddNote\<close> on this note, so the optional argument
  causes no error outcome. \<open>handleSearchCards\<close> asks \<open>notesInfo\<close> for the first ten
  identifiers found when \<open>limit\<close> is absent, empty, not a string, unparseable or not
  positive, and for the first \<open>n\<close> when it parses to a positive \<open>n\<close>. A value of the wrong
  type, or an empty one, is treated as an absent argument: each handler returns what it
  returns when the argument is removed.
\<close>

theorem optional_fields_lenient:
  "(as_string v = None \<or> v = JStr [] \<longrightarrow>
        modelNameOf (args(''model_name'' \<mapsto> v)) = ''Basic''
      \<and> modelNameOf (args(''model_name'' := None)) = ''Basic''
      \<and> handleCreateCard e a sent (args(''model_name'' \<mapsto> v))
          = handleCreateCard e a sent (args(''model_name'' := None))
      \<and> handleCreateCardWithMedia e a sent (args(''model_name'' \<mapsto> v))
          = handleCreateCardWithMedia e a sent (args(''model_name'' := None))
      \<and> limitOf (args(''limit'' \<mapsto> v)) = 10
      \<and> limitOf (args(''limit'' := None)) = 10
      \<and> handleSearchCards e a sent (args(''limit'' \<mapsto> v))
          = handleSearchCards e a sent (args(''limit'' := None))
      \<and> handleCreateCardWithMedia e a sent (args(''audio_filename'' \<mapsto> v))
          = handleCreateCardWithMedia e a sent (args(''audio_filename'' := None))
      \<and> handleCreateCardWithMedia e a sent (args(''audio_data'' \<mapsto> v))
          = handleCreateCardWithMedia e a sent (args(''audio_data'' := None))
      \<and> handleCreateCardWithMedia e a sent (args(''image_filename'' \<mapsto> v))
          = handleCreateCardWithMedia e a sent (args(''image_filename'' := None))
      \<and> handleCreateCardWithMedia e a sent (args(''image_data'' \<mapsto> v))
          = handleCreateCardWithMedia e a sent (args(''image_data'' := None)))
   \<and> (as_array w = None \<or> w = JArr [] \<longrightarrow>
        tagsOf (index (args(''tags'' \<mapsto> w)) ''tags'') = []
      \<and> tagsOf (index (args(''tags'' := None)) ''tags'') = []
      \<and> handleCreateCard e a sent (args(''tags'' \<mapsto> w))
          = handleCreateCard e a sent (args(''tags'' := None))
      \<and> handleCreateCardWithMedia e a sent (args(''tags'' \<mapsto> w))
          = handleCreateCardWithMedia e a sent (args(''tags'' := None)))
   \<and> ((as_string (index args ''limit'') = None \<or> index args ''limit'' = JStr [])
        \<and> as_string (index args ''query'') = Some query
        \<and> fst (FindNotes e (ankiClient a) sent query) = Inr found \<and> found \<noteq> [] \<longrightarrow>
        snd (handleSearchCards e a sent args)
          = sent @ [\<lparr>Action = ''findNotes'', Version_req = Version (ankiClient a),
                     Params = Some (VStringMap [(''query'', query)])\<rparr>,
                    \<lparr>Action = ''notesInfo'', Version_req = Version (ankiClient a),
                     Params = Some (VMap [(''notes'', VInt64s (take 10 found))])\<rparr>])
   \<and> (as_string (index args ''deck_name'') = Some deckName
      \<and> as_string (index args ''front'') = Some front
      \<and> as_string (index args ''back'') = Some backText \<longrightarrow>
      (\<exists>note.
          handleCreateCard e a sent args
            = (case AddNote e (ankiClient a) sent note of
                 (Inl err, sent') \<Rightarrow>
                   (Return (errorResult (''Failed to create card: '' @ err), None), sent')
               | (Inr noteID, sent') \<Rightarrow>
                   (Return (textResult (''Successfully created card with ID: '' @ fmt_d noteID),
                            None), sent'))
          \<and> snd (handleCreateCard e a sent args)
              = sent @ [\<lparr>Action = ''addNote'', Version_req = Version (ankiClient a),
                         Params = Some (VMap [(''note'', VNote note)])\<rparr>]
          \<and> Audio note = [] \<and> Picture note = [] \<and> Video note = []
          \<and> DeckName note = deckName
          \<and> Fields note = [(''Front'', front), (''Back'', backText)]
          \<and> Options note = [(''allowDuplicate'', JBool False)]
          \<and> (as_string (index args ''model_name'') = None \<or> index args ''model_name'' = JStr []
                \<longrightarrow> ModelName note = ''Basic'')
          \<and> (\<forall>model. index args ''model_name'' = JStr model \<and> model \<noteq> []
                \<longrightarrow> ModelName note = model)
          \<and> (as_array (index args ''tags'') = None \<or> index args ''tags'' = JArr []
                \<longrightarrow> Tags note = [])
          \<and> (\<forall>ts. index args ''tags'' = JArr (map JStr ts) \<longrightarrow> Tags note = ts)))
   \<and> (as_string (index args ''deck_name'') = Some deckName
      \<and> as_string (index args ''front'') = Some front
      \<and> as_string (index args ''back'') = Some backText
      \<and> ((as_string (index args ''audio_filename'') = None \<or> index args ''audio_filename'' = JStr []
            \<or> as_string (index args ''audio_data'') = None \<or> index args ''audio_data'' = JStr [])
           \<and> audio = []
         \<or> index args ''audio_filename'' = JStr audioFilename \<and> audioFilename \<noteq> []
           \<and> index args ''audio_data'' = JStr audioData \<and> audioData \<noteq> []
           \<and> processMediaData e audioData = Inr audioPayload
           \<and> audio = [\<lparr>Path = [], Filename = audioFilename, Fields_media = [], Data = audioPayload\<rparr>])
      \<and> ((as_string (index args ''image_filename'') = None \<or> index args ''image_filename'' = JStr []
            \<or> as_string (index args ''image_data'') = None \<or> index args ''image_data'' = JStr [])
           \<and> picture = []
         \<or> index args ''image_filename'' = JStr imageFilename \<and> imageFilename \<noteq> []
           \<and> index args ''image_data'' = JStr imageData \<and> imageData \<noteq> []
           \<and> processMediaData e imageData = Inr imagePayload
           \<and> picture = [\<lparr>Path = [], Filename = imageFilename, Fields_media = [], Data = imagePayload\<rparr>]) \<longrightarrow>
      (\<exists>note.
          handleCreateCardWithMedia e a sent args
            = (case AddNote e (ankiClient a) sent note of
                 (Inl err, sent') \<Rightarrow>
                   (Return (errorResult (''Failed to create card with media: '' @ err), None),
                    sent')
               | (Inr noteID, sent') \<Rightarrow>
                   (Return (textResult (''Successfully created card with media, ID: ''
                                          @ fmt_d noteID), None), sent'))
          \<and> snd (handleCreateCardWithMedia e a sent args)
              = sent @ [\<lparr>Action = ''addNote'', Version_req = Version (ankiClient a),
                         Params = Some (VMap [(''note'', VNote note)])\<rparr>]
          \<and> Audio note = audio \<and> Picture note = picture \<and> Video note = []
          \<and> DeckName note = deckName
          \<and> Fields note = [(''Front'', front), (''Back'', backText)]
          \<and> Options note = [(''allowDuplicate'', JBool False)]
          \<and> (as_string (index args ''model_name'') = None \<or> index args ''model_name'' = JStr []
                \<longrightarrow> ModelName note = ''Basic'')
          \<and> (\<forall>model. index args ''model_name'' = JStr model \<and> model \<noteq> []
                \<longrightarrow> ModelName note = model)
          \<and> (as_array (index args ''tags'') = None \<or> index args ''tags'' = JArr []
                \<longrightarrow> Tags note = [])
          \<and> (\<forall>ts. index args ''tags'' = JArr (map JStr ts) \<longrightarrow> Tags note = ts)))
   \<and> (as_string (index args ''limit'') = Some limitStr \<and> Atoi limitStr = Some n \<and> 0 < n
        \<and> as_string (index args ''query'') = Some query
        \<and> fst (FindNotes e (ankiClient a) sent query) = Inr found \<and> found \<noteq> [] \<longrightarrow>
        snd (handleSearchCards e a sent args)
          = sent @ [\<lparr>Action = ''findNotes'', Version_req = Version (ankiClient a),
                     Params = Some (VStringMap [(''query'', query)])\<rparr>,
                    \<lparr>Action = ''notesInfo'', Version_req = Version (ankiClient a),
                     Params = Some (VMap [(''notes'', VInt64s (take (nat n) found))])\<rparr>])
   \<and> (as_string (index args ''limit'') = Some limitStr
        \<and> (Atoi limitStr = None \<or> (\<exists>m. Atoi limitStr = Some m \<and> m \<le> 0))
        \<and> as_string (index args ''query'') = Some query
        \<and> fst (FindNotes e (ankiClient a) sent query) = Inr found \<and> found \<noteq> [] \<longrightarrow>
        snd (handleSearchCards e a sent args)
          = sent @ [\<lparr>Action = ''findNotes'', Version_req = Version (ankiClient a),
                     Params = Some (VStringMap [(''query'', query)])\<rparr>,
                    \<lparr>Action = ''notesInfo'', Version_req = Version (ankiClient a),
                     Params = Some (VMap [(''notes'', VInt64s (take 10 found))])\<rparr>])"
  by (intro conjI lenient_string_as_absent lenient_tags_as_absent default_limit_requested create_card_defaults create_card_with_media_defaults given_limit_requested bad_limit_ignored)

theorem optional_fields_lenient_witness:
  "as_string (JNum 5) = None
   \<and> as_array (JStr ''greetings'') = None
   \<and> modelNameOf ((map_of [(''deck_name'', JStr ''Spanish''), (''front'', JStr ''hola''),
                             (''back'', JStr ''hello'')])(''model_name'' \<mapsto> JNum 5)) = ''Basic''
   \<and> handleCreateCard (exampleEnv [(''addNote'', ok (JNum 1496198395707))] []) exampleServer []
         ((map_of [(''deck_name'', JStr ''Spanish''), (''front'', JStr ''hola''),
                   (''back'', JStr ''hello'')])(''model_name'' \<mapsto> JNum 5))
       = handleCreateCard (exampleEnv [(''addNote'', ok (JNum 1496198395707))] []) exampleServer []
           ((map_of [(''deck_name'', JStr ''Spanish''), (''front'', JStr ''hola''),
                     (''back'', JStr ''hello'')])(''model_name'' := None))
   \<and> handleCreateCard (exampleEnv [(''addNote'', ok (JNum 1496198395707))] []) exampleServer []
         ((map_of [(''deck_name'', JStr ''Spanish''), (''front'', JStr ''hola''),
                   (''back'', JStr ''hello'')])(''tags'' \<mapsto> JStr ''greetings''))
       = handleCreateCard (exampleEnv [(''addNote'', ok (JNum 1496198395707))] []) exampleServer []
           ((map_of [(''deck_name'', JStr ''Spanish''), (''front'', JStr ''hola''),
                     (''back'', JStr ''hello'')])(''tags'' := None))
   \<and> as_string (index (map_of [(''query'', JStr ''deck:Spanish''), (''limit'', JNum 3)]) ''limit'') = None
   \<and> snd (handleSearchCards
              (exampleEnv [(''findNotes'', ok (JArr [JNum 1, JNum 2, JNum 3, JNum 4, JNum 5, JNum 6,
                                                    JNum 7, JNum 8, JNum 9, JNum 10, JNum 11])),
                           (''notesInfo'', ok (JArr []))] [])
              exampleServer [] (map_of [(''query'', JStr ''deck:Spanish''), (''limit'', JNum 3)]))
       = [\<lparr>Action = ''findNotes'', Version_req = 6,
            Params = Some (VStringMap [(''query'', ''deck:Spanish'')])\<rparr>,
          \<lparr>Action = ''notesInfo'', Version_req = 6,
            Params = Some (VMap [(''notes'', VInt64s [1, 2, 3, 4, 5, 6, 7, 8, 9, 10])])\<rparr>]
   \<and> snd (handleCreateCard (exampleEnv [(''addNote'', ok (JNum 1496198395707))] []) exampleServer []
          (map_of [(''deck_name'', JStr ''Spanish''), (''front'', JStr ''hola''),
                   (''back'', JStr ''hello''), (''model_name'', JNum 5),
                   (''tags'', JStr ''greetings'')]))
       = [\<lparr>Action = ''addNote'', Version_req = 6,
            Params = Some (VMap [(''note'', VNote
              \<lparr>DeckName = ''Spanish'', ModelName = ''Basic'',
               Fields = [(''Front'', ''hola''), (''Back'', ''hello'')],
               Tags = [], Audio = [], Picture = [], Video = [],
               Options = [(''allowDuplicate'', JBool False)]\<rparr>)])\<rparr>]
   \<and> snd (handleCreateCardWithMedia (exampleEnv [(''addNote'', ok (JNum 1496198395707))] [])
          exampleServer []
          (map_of [(''deck_name'', JStr ''Spanish''), (''front'', JStr ''hola''),
                   (''back'', JStr ''hello''), (''model_name'', JStr ''Cloze''),
                   (''tags'', JArr [JStr ''greetings'']),
                   (''audio_filename'', JStr ''hola.mp3''),
                   (''audio_data'', JStr ''data:audio/mpeg;base64,QUJD''),
                   (''image_filename'', JNum 1), (''image_data'', JStr ''QUJD'')]))
       = [\<lparr>Action = ''addNote'', Version_req = 6,
            Params = Some (VMap [(''note'', VNote
              \<lparr>DeckName = ''Spanish'', ModelName = ''Cloze'',
               Fields = [(''Front'', ''hola''), (''Back'', ''hello'')],
               Tags = [''greetings''],
               Audio = [\<lparr>Path = [], Filename = ''hola.mp3'', Fields_media = [], Data = ''QUJD''\<rparr>],
               Picture = [], Video = [],
               Options = [(''allowDuplicate'', JBool False)]\<rparr>)])\<rparr>]
   \<and> snd (handleSearchCards
              (exampleEnv [(''findNotes'', ok (JArr [JNum 1, JNum 2, JNum 3, JNum 4, JNum 5, JNum 6,
                                                    JNum 7, JNum 8, JNum 9, JNum 10, JNum 11])),
                           (''notesInfo'', ok (JArr []))] [])
              exampleServer [] (map_of [(''query'', JStr ''deck:Spanish''), (''limit'', JStr ''3'')]))
       = [\<lparr>Action = ''findNotes'', Version_req = 6,
            Params = Some (VStringMap [(''query'', ''deck:Spanish'')])\<rparr>,
          \<lparr>Action = ''notesInfo'', Version_req = 6,
            Params = Some (VMap [(''notes'', VInt64s [1, 2, 3])])\<rparr>]
   \<and> snd (handleSearchCards
              (exampleEnv [(''findNotes'', ok (JArr [JNum 1, JNum 2, JNum 3, JNum 4, JNum 5, JNum 6,
                                                    JNum 7, JNum 8, JNum 9, JNum 10, JNum 11])),
                           (''notesInfo'', ok (JArr []))] [])
              exampleServer [] (map_of [(''query'', JStr ''deck:Spanish''), (''limit'', JStr ''0'')]))
       = [\<lparr>Action = ''findNotes'', Version_req = 6,
            Params = Some (VStringMap [(''query'', ''deck:Spanish'')])\<rparr>,
          \<lparr>Action = ''notesInfo'', Version_req = 6,
            Params = Some (VMap [(''notes'', VInt64s [1, 2, 3, 4, 5, 6, 7, 8, 9, 10])])\<rparr>]"
proof -
  let ?card = "map_of [(''deck_name'', JStr ''Spanish''), (''front'', JStr ''hola''),
                       (''back'', JStr ''hello'')]"
  let ?search = "map_of [(''query'', JStr ''deck:Spanish''), (''limit'', JNum 3)]"
  let ?e = "exampleEnv [(''findNotes'', ok (JArr [JNum 1, JNum 2, JNum 3, JNum 4, JNum 5, JNum 6,
                                                  JNum 7, JNum 8, JNum 9, JNum 10, JNum 11])),
                        (''notesInfo'', ok (JArr []))] []"
  have found: "fst (FindNotes ?e (ankiClient exampleServer) [] ''deck:Spanish'')
                 = Inr [1, 2, 3, 4, 5, 6, 7, 8, 9, 10, 11]"
    by (simp add: FindNotes_def invoke_def exampleEnv_def ok_def int64_def)
  have query: "as_string (index ?search ''query'') = Some ''deck:Spanish''"
    and limit: "as_string (index ?search ''limit'') = None"
    by (simp_all add: index_def)
  note card = optional_fields_lenient
    [where v = "JNum 5" and w = "JStr ''greetings''" and args = ?card
       and e = "exampleEnv [(''addNote'', ok (JNum 1496198395707))] []"
       and a = exampleServer and sent = "[]"]
  note search = optional_fields_lenient
    [where args = ?search and e = ?e and a = exampleServer and sent = "[]"
       and query = "''deck:Spanish''" and found = "[1, 2, 3, 4, 5, 6, 7, 8, 9, 10, 11]"]
  have sent: "snd (handleSearchCards ?e exampleServer [] ?search)
       = [\<lparr>Action = ''findNotes'', Version_req = 6,
            Params = Some (VStringMap [(''query'', ''deck:Spanish'')])\<rparr>,
          \<lparr>Action = ''notesInfo'', Version_req = 6,
            Params = Some (VMap [(''notes'', VInt64s [1, 2, 3, 4, 5, 6, 7, 8, 9, 10])])\<rparr>]"
    using search found query limit
    by (simp add: exampleServer_def NewAnkiConnect_def ankiConnectVersion_def)
  let ?c = "exampleEnv [(''addNote'', ok (JNum 1496198395707))] []"
  let ?card2 = "map_of [(''deck_name'', JStr ''Spanish''), (''front'', JStr ''hola''),
                        (''back'', JStr ''hello''), (''model_name'', JNum 5),
                        (''tags'', JStr ''greetings'')]"
  let ?media = "map_of [(''deck_name'', JStr ''Spanish''), (''front'', JStr ''hola''),
                        (''back'', JStr ''hello''), (''model_name'', JStr ''Cloze''),
                        (''tags'', JArr [JStr ''greetings'']),
                        (''audio_filename'', JStr ''hola.mp3''),
                        (''audio_data'', JStr ''data:audio/mpeg;base64,QUJD''),
                        (''image_filename'', JNum 1), (''image_data'', JStr ''QUJD'')]"
  let ?three = "map_of [(''query'', JStr ''deck:Spanish''), (''limit'', JStr ''3'')]"
  let ?zero = "map_of [(''query'', JStr ''deck:Spanish''), (''limit'', JStr ''0'')]"
  have payload: "processMediaData ?c ''data:audio/mpeg;base64,QUJD'' = Inr ''QUJD''"
    by (simp add: processMediaData_def HasPrefix_def Let_def)
  have card2: "snd (handleCreateCard ?c exampleServer [] ?card2)
       = [\<lparr>Action = ''addNote'', Version_req = 6,
            Params = Some (VMap [(''note'', VNote
              \<lparr>DeckName = ''Spanish'', ModelName = ''Basic'',
               Fields = [(''Front'', ''hola''), (''Back'', ''hello'')],
               Tags = [], Audio = [], Picture = [], Video = [],
               Options = [(''allowDuplicate'', JBool False)]\<rparr>)])\<rparr>]"
    using optional_fields_lenient
      [where args = ?card2 and e = ?c and a = exampleServer and sent = "[]"
         and deckName = "''Spanish''" and front = "''hola''" and backText = "''hello''"]
    by (simp add: handleCreateCard_def index_def modelNameOf_def tagsOf_def AddNote_def invoke_def
          exampleEnv_def ok_def exampleServer_def NewAnkiConnect_def ankiConnectVersion_def
          Let_def)
  have media: "snd (handleCreateCardWithMedia ?c exampleServer [] ?media)
       = [\<lparr>Action = ''addNote'', Version_req = 6,
            Params = Some (VMap [(''note'', VNote
              \<lparr>DeckName = ''Spanish'', ModelName = ''Cloze'',
               Fields = [(''Front'', ''hola''), (''Back'', ''hello'')],
               Tags = [''greetings''],
               Audio = [\<lparr>Path = [], Filename = ''hola.mp3'', Fields_media = [], Data = ''QUJD''\<rparr>],
               Picture = [], Video = [],
               Options = [(''allowDuplicate'', JBool False)]\<rparr>)])\<rparr>]"
    using payload optional_fields_lenient
      [where args = ?media and e = ?c and a = exampleServer and sent = "[]"
         and deckName = "''Spanish''" and front = "''hola''" and backText = "''hello''"
         and audioFilename = "''hola.mp3''" and audioData = "''data:audio/mpeg;base64,QUJD''"
         and audioPayload = "''QUJD''"
         and audio = "[\<lparr>Path = [], Filename = ''hola.mp3'', Fields_media = [], Data = ''QUJD''\<rparr>]"
         and picture = "[]"]
    by (simp add: handleCreateCardWithMedia_def mediaSlot_def index_def modelNameOf_def tagsOf_def
          AddNote_def invoke_def exampleEnv_def ok_def exampleServer_def NewAnkiConnect_def
          ankiConnectVersion_def Let_def)
  have three: "snd (handleSearchCards ?e exampleServer [] ?three)
       = [\<lparr>Action = ''findNotes'', Version_req = 6,
            Params = Some (VStringMap [(''query'', ''deck:Spanish'')])\<rparr>,
          \<lparr>Action = ''notesInfo'', Version_req = 6,
            Params = Some (VMap [(''notes'', VInt64s [1, 2, 3])])\<rparr>]"
    using found optional_fields_lenient
      [where args = ?three and e = ?e and a = exampleServer and sent = "[]"
         and query = "''deck:Spanish''" and found = "[1, 2, 3, 4, 5, 6, 7, 8, 9, 10, 11]"
         and limitStr = "''3''" and n = 3]
    by (simp add: index_def Atoi_def isDigit_def digitsValue_def exampleServer_def
          NewAnkiConnect_def ankiConnectVersion_def)
  have zero: "snd (handleSearchCards ?e exampleServer [] ?zero)
       = [\<lparr>Action = ''findNotes'', Version_req = 6,
            Params = Some (VStringMap [(''query'', ''deck:Spanish'')])\<rparr>,
          \<lparr>Action = ''notesInfo'', Version_req = 6,
            Params = Some (VMap [(''notes'', VInt64s [1, 2, 3, 4, 5, 6, 7, 8, 9, 10])])\<rparr>]"
    using found optional_fields_lenient
      [where args = ?zero and e = ?e and a = exampleServer and sent = "[]"
         and query = "''deck:Spanish''" and found = "[1, 2, 3, 4, 5, 6, 7, 8, 9, 10, 11]"
         and limitStr = "''0''"]
    by (simp add: index_def Atoi_def isDigit_def digitsValue_def exampleServer_def
          NewAnkiConnect_def ankiConnectVersion_def)
  show ?thesis
    using card sent limit card2 media three zero by simp
qed

text \<open>
  C10. When the query is a string and \<open>findNotes\<close> returns the empty list,
  \<open>handleSearchCards\<close> returns the text \<open>No cards found matching the query.\<close> without the
  error flag, and the only request it has sent is \<open>findNotes\<close>: \<open>notesInfo\<close> is not
  called.
\<close>

theorem search_cards_no_match:
  assumes "as_string (index args ''query'') = Some query"
    and "fst (invoke e (ankiClient a) sent ''findNotes'' (Some (VStringMap [(''query'', query)])))
           = (JArr [], None)"
  shows "handleSearchCards e a sent args
           = (Return (\<lparr>Content = [\<lparr>Type = ''text'', Text = ''No cards found matching the query.''\<rparr>],
                        IsError = False\<rparr>, None),
              sent @ [\<lparr>Action = ''findNotes'', Version_req = Version (ankiClient a),
                        Params = Some (VStringMap [(''query'', query)])\<rparr>])"
  using assms(1) FindNotes_empty [OF assms(2)]
  by (simp add: handleSearchCards_def textResult_def Let_def)

theorem search_cards_no_match_witness:
  "handleSearchCards (exampleEnv [(''findNotes'', ok (JArr []))] []) exampleServer []
      (map_of [(''query'', JStr ''deck:Spanish'')])
     = (Return (\<lparr>Content = [\<lparr>Type = ''text'', Text = ''No cards found matching the query.''\<rparr>],
                  IsError = False\<rparr>, None),
        [\<lparr>Action = ''findNotes'', Version_req = 6,
          Params = Some (VStringMap [(''query'', ''deck:Spanish'')])\<rparr>])"
proof -
  have q: "as_string (index (map_of [(''query'', JStr ''deck:Spanish'')]) ''query'') = Some ''deck:Spanish''"
    by (simp add: index_def)
  have h: "fst (invoke (exampleEnv [(''findNotes'', ok (JArr []))] []) (ankiClient exampleServer) []
                  ''findNotes'' (Some (VStringMap [(''query'', ''deck:Spanish'')])))
             = (JArr [], None)"
    by (simp add: invoke_def exampleEnv_def ok_def)
  show ?thesis
    using search_cards_no_match [OF q h]
    by (simp add: exampleServer_def NewAnkiConnect_def ankiConnectVersion_def)
qed

end
